theory Spec2Isabelle
  imports Main "HOL-Library.Word"
begin

unbundle bit_operations_syntax

section \<open>The Bolt protocol descriptors and heartbeat commands\<close>

text \<open>
  A shallow embedding of \<^verbatim>\<open>pkg/protocol/sofarpc/codec/boltprotocol.go\<close>: the
  protocol descriptor \<^verbatim>\<open>BoltProtocol\<close> with its getters, the two descriptors
  \<^verbatim>\<open>BoltV1\<close> and \<^verbatim>\<open>BoltV2\<close>, the package \<^verbatim>\<open>init\<close> that registers them,
  and the two heartbeat constructors. What the file uses but does not declare (the
  constants and struct types of package sofarpc, the registry, the two codecs) is either
  a parameter or a model that follows the design document, and is marked as such.
\<close>

subsection \<open>Declarations of package sofarpc\<close>

type_synonym byte = "8 word"

text \<open>
  Modelled from the spec: the discriminator constants \<^verbatim>\<open>sofarpc.PROTOCOL_CODE_V1\<close> and
  \<^verbatim>\<open>sofarpc.PROTOCOL_CODE_V2\<close> are declared outside this file; the data model gives
  them as V1 = 1 and V2 = 2.
\<close>

definition PROTOCOL_CODE_V1 :: byte where
  "PROTOCOL_CODE_V1 = 1"

text \<open>
  Modelled from the spec: \<^verbatim>\<open>sofarpc.PROTOCOL_CODE_V2\<close>, declared
  outside this file, is the discriminator V2 = 2.
\<close>

definition PROTOCOL_CODE_V2 :: byte where
  "PROTOCOL_CODE_V2 = 2"

text \<open>
  Modelled from the spec: the four header length constants of package sofarpc are
  declared outside this file; the wire table gives the fixed header totals as 22 and 20
  bytes for V1 (request, response) and 24 and 22 bytes for V2.
\<close>

definition REQUEST_HEADER_LEN_V1 :: int where
  "REQUEST_HEADER_LEN_V1 = 22"

text \<open>
  Modelled from the spec: \<^verbatim>\<open>sofarpc.RESPONSE_HEADER_LEN_V1\<close>,
  declared outside this file; the fixed header of a V1 response is 20 bytes.
\<close>

definition RESPONSE_HEADER_LEN_V1 :: int where
  "RESPONSE_HEADER_LEN_V1 = 20"

text \<open>
  Modelled from the spec: \<^verbatim>\<open>sofarpc.REQUEST_HEADER_LEN_V2\<close>,
  declared outside this file; the fixed header of a V2 request is 24 bytes.
\<close>

definition REQUEST_HEADER_LEN_V2 :: int where
  "REQUEST_HEADER_LEN_V2 = 24"

text \<open>
  Modelled from the spec: \<^verbatim>\<open>sofarpc.RESPONSE_HEADER_LEN_V2\<close>,
  declared outside this file; the fixed header of a V2 response is 22 bytes.
\<close>

definition RESPONSE_HEADER_LEN_V2 :: int where
  "RESPONSE_HEADER_LEN_V2 = 22"

text \<open>
  Modelled from the spec: the command type constants \<^verbatim>\<open>sofarpc.REQUEST\<close>,
  \<^verbatim>\<open>sofarpc.RESPONSE\<close> and the one-way request type are declared outside this file; the
  data model gives the command type as the enumeration REQUEST, RESPONSE, REQUEST_ONEWAY.
\<close>

datatype cmd_type = REQUEST | RESPONSE | REQUEST_ONEWAY

text \<open>
  Modelled from the spec: \<^verbatim>\<open>sofarpc.RESPONSE_STATUS_SUCCESS\<close> is declared outside this
  file; the data model gives the response status as a 16-bit code with 0 for success.
\<close>

definition RESPONSE_STATUS_SUCCESS :: "16 word" where
  "RESPONSE_STATUS_SUCCESS = 0"

text \<open>
  The constants \<^verbatim>\<open>sofarpc.HEARTBEAT\<close> (a 16-bit command code) and
  \<^verbatim>\<open>sofarpc.HESSIAN_SERIALIZE\<close> (an 8-bit codec identifier) are declared outside this
  file and no value is given for them anywhere; they are parameters of the model.
\<close>

record sofarpc =
  HEARTBEAT :: "16 word"
  HESSIAN_SERIALIZE :: byte

text \<open>
  Modelled from the spec: the struct types \<^verbatim>\<open>sofarpc.BoltRequestCommand\<close> and
  \<^verbatim>\<open>sofarpc.BoltResponseCommand\<close> are declared outside this file. The fields
  \<open>Protocol\<close>, \<open>CmdType\<close>, \<open>CmdCode\<close>, \<open>Version\<close>, \<open>ReqId\<close>, \<open>CodecPro\<close>,
  \<open>Timeout\<close> and \<open>ResponseStatus\<close> are the ones the constructors of this file name;
  their widths and the three byte spans follow the data model: protocolCode and version
  and codecType are 8-bit, commandCode is 16-bit, requestId is 32-bit, the request-only
  timeout is a signed 32-bit integer, the response-only responseStatus is 16-bit.
  A field that a Go struct literal does not name holds its zero value, the empty span.
\<close>

record BoltCommand =
  Protocol :: byte
  CmdType :: cmd_type
  CmdCode :: "16 word"
  Version :: byte
  ReqId :: "32 word"
  CodecPro :: byte
  ClassName :: "byte list"
  HeaderMap :: "byte list"
  Content :: "byte list"

text \<open>
  Modelled from the spec: \<^verbatim>\<open>sofarpc.BoltRequestCommand\<close>,
  declared outside this file; the request-only field is the timeout, a signed 32-bit
  integer.
\<close>

record BoltRequestCommand = BoltCommand +
  Timeout :: "32 word"

text \<open>
  Modelled from the spec: \<^verbatim>\<open>sofarpc.BoltResponseCommand\<close>,
  declared outside this file; the response-only field is the 16-bit response status.
\<close>

record BoltResponseCommand = BoltCommand +
  ResponseStatus :: "16 word"

text \<open>
  The encoder and decoder of a descriptor are values of the empty struct types
  \<^verbatim>\<open>boltV1Codec\<close> and \<^verbatim>\<open>boltV2Codec\<close>; the command handlers are whatever
  \<^verbatim>\<open>handler.NewBoltCommandHandler()\<close> and \<^verbatim>\<open>handler.NewBoltCommandHandlerV2()\<close>
  return. Both are declared outside this file and are kept as opaque tags.
\<close>

datatype codec = boltV1Codec | boltV2Codec

datatype command_handler = NewBoltCommandHandler | NewBoltCommandHandlerV2

text \<open>
  Modelled from the spec: the errors of the registry and of the encoders, all declared
  outside this file, as the error taxonomy names them.
\<close>

datatype error = DuplicateProtocol | UnknownProtocol | WrongCommandShape | FieldOverflow

subsection \<open>The descriptor\<close>

record BoltProtocol =
  protocolCode :: byte
  requestHeaderLen :: int
  responseHeaderLen :: int
  encoder :: codec
  decoder :: codec
  commandHandler :: command_handler

definition BoltV1 :: BoltProtocol where
  "BoltV1 = \<lparr> protocolCode = PROTOCOL_CODE_V1,
              requestHeaderLen = REQUEST_HEADER_LEN_V1,
              responseHeaderLen = RESPONSE_HEADER_LEN_V1,
              encoder = boltV1Codec,
              decoder = boltV1Codec,
              commandHandler = NewBoltCommandHandler \<rparr>"

definition BoltV2 :: BoltProtocol where
  "BoltV2 = \<lparr> protocolCode = PROTOCOL_CODE_V2,
              requestHeaderLen = REQUEST_HEADER_LEN_V2,
              responseHeaderLen = RESPONSE_HEADER_LEN_V2,
              encoder = boltV2Codec,
              decoder = boltV2Codec,
              commandHandler = NewBoltCommandHandlerV2 \<rparr>"

text \<open>
  The getters have a pointer receiver, so each is modelled with the receiver passed
  through: the result is the value returned and the descriptor as the call leaves it.
\<close>

definition GetRequestHeaderLength :: "BoltProtocol \<Rightarrow> int \<times> BoltProtocol" where
  "GetRequestHeaderLength b = (requestHeaderLen b, b)"

definition GetResponseHeaderLength :: "BoltProtocol \<Rightarrow> int \<times> BoltProtocol" where
  "GetResponseHeaderLength b = (responseHeaderLen b, b)"

definition GetEncoder :: "BoltProtocol \<Rightarrow> codec \<times> BoltProtocol" where
  "GetEncoder b = (encoder b, b)"

definition GetDecoder :: "BoltProtocol \<Rightarrow> codec \<times> BoltProtocol" where
  "GetDecoder b = (decoder b, b)"

definition GetCommandHandler :: "BoltProtocol \<Rightarrow> command_handler \<times> BoltProtocol" where
  "GetCommandHandler b = (commandHandler b, b)"

subsection \<open>The registry and the package initialisation\<close>

text \<open>
  Modelled from the spec: \<^verbatim>\<open>sofarpc.RegisterProtocol\<close> and the registry it fills
  are declared outside this file. The registry is a process-wide mapping from
  discriminator byte to descriptor, kept here as the list of its bindings in the order
  they were made. Registering fails with \<open>DuplicateProtocol\<close> when the discriminator is
  already bound, except that registering the identical descriptor again is allowed and
  changes nothing; a lookup fails with \<open>UnknownProtocol\<close> when nothing is bound.
\<close>

type_synonym registry = "(byte \<times> BoltProtocol) list"

definition RegisterProtocol :: "byte \<Rightarrow> BoltProtocol \<Rightarrow> registry \<Rightarrow> error + registry" where
  "RegisterProtocol code d reg =
     (case map_of reg code of
        None \<Rightarrow> Inr (reg @ [(code, d)])
      | Some d' \<Rightarrow> if d' = d then Inr reg else Inl DuplicateProtocol)"

text \<open>
  Modelled from the spec: the lookup of the registry, declared outside this file; it
  fails with \<open>UnknownProtocol\<close> when no descriptor is bound to the byte.
\<close>

definition lookup :: "byte \<Rightarrow> registry \<Rightarrow> error + BoltProtocol" where
  "lookup code reg =
     (case map_of reg code of
        None \<Rightarrow> Inl UnknownProtocol
      | Some d \<Rightarrow> Inr d)"

text \<open>
  The body of the package \<^verbatim>\<open>init\<close>: two calls of the registering function, one
  after the other, the first for \<^verbatim>\<open>BoltV1\<close> under \<^verbatim>\<open>PROTOCOL_CODE_V1\<close>, the
  second for \<^verbatim>\<open>BoltV2\<close> under \<^verbatim>\<open>PROTOCOL_CODE_V2\<close>. The function called,
  \<^verbatim>\<open>sofarpc.RegisterProtocol\<close>, is declared outside this file, so the body takes it
  as a parameter, together with the state it works on; a registration that fails ends
  the initialisation.
\<close>

definition init_with ::
  "(byte \<Rightarrow> BoltProtocol \<Rightarrow> 's \<Rightarrow> error + 's) \<Rightarrow> 's \<Rightarrow> error + 's" where
  "init_with register s =
     (case register PROTOCOL_CODE_V1 BoltV1 s of
        Inl e \<Rightarrow> Inl e
      | Inr s1 \<Rightarrow> register PROTOCOL_CODE_V2 BoltV2 s1)"

text \<open>The package \<^verbatim>\<open>init\<close> on the registry of the design.\<close>

definition init :: "registry \<Rightarrow> error + registry" where
  "init = init_with RegisterProtocol"


subsection \<open>The heartbeat constructors\<close>

definition NewBoltHeartbeat :: "sofarpc \<Rightarrow> 32 word \<Rightarrow> BoltRequestCommand" where
  "NewBoltHeartbeat k requestId =
     \<lparr> Protocol = PROTOCOL_CODE_V1,
       CmdType = REQUEST,
       CmdCode = HEARTBEAT k,
       Version = 1,
       ReqId = requestId,
       CodecPro = HESSIAN_SERIALIZE k,
       ClassName = [],
       HeaderMap = [],
       Content = [],
       Timeout = - 1 \<rparr>"

definition NewBoltHeartbeatAck :: "sofarpc \<Rightarrow> 32 word \<Rightarrow> BoltResponseCommand" where
  "NewBoltHeartbeatAck k requestId =
     \<lparr> Protocol = PROTOCOL_CODE_V1,
       CmdType = RESPONSE,
       CmdCode = HEARTBEAT k,
       Version = 1,
       ReqId = requestId,
       CodecPro = HESSIAN_SERIALIZE k,
       ClassName = [],
       HeaderMap = [],
       Content = [],
       ResponseStatus = RESPONSE_STATUS_SUCCESS \<rparr>"

section \<open>The frame codecs\<close>

text \<open>
  The codecs \<^verbatim>\<open>boltV1Codec\<close> and \<^verbatim>\<open>boltV2Codec\<close> that the two descriptors carry
  are declared outside this file. Their model follows the design of the frame codec and
  the table of the wire formats.
\<close>

subsection \<open>Commands of the four shapes\<close>

text \<open>
  Modelled from the spec: the V2 command structs are declared outside this file. A V2
  command has, besides the fields of a V1 command, the frame-layout minor version
  \<open>protocolVersion\<close> ("ver1") and the bit-flag byte \<open>functionSwitch\<close>; decode and
  encode branch on the closed set of shapes V1 request, V1 response, V2 request and
  V2 response.
\<close>

record V2Only =
  protocolVersion :: byte
  functionSwitch :: byte

text \<open>
  Modelled from the spec: the command structs are declared outside this file; a command
  is one of the closed set of shapes V1 request, V1 response, V2 request and V2
  response.
\<close>

datatype Command =
    V1Request BoltRequestCommand
  | V1Response BoltResponseCommand
  | V2Request BoltRequestCommand V2Only
  | V2Response BoltResponseCommand V2Only

text \<open>
  The command type of a command of any shape.
\<close>

fun command_type :: "Command \<Rightarrow> cmd_type" where
  "command_type (V1Request q) = CmdType q"
| "command_type (V1Response p) = CmdType p"
| "command_type (V2Request q x) = CmdType q"
| "command_type (V2Response p x) = CmdType p"

text \<open>
  The protocol code of a command of any shape.
\<close>

fun protocol_code :: "Command \<Rightarrow> byte" where
  "protocol_code (V1Request q) = Protocol q"
| "protocol_code (V1Response p) = Protocol p"
| "protocol_code (V2Request q x) = Protocol q"
| "protocol_code (V2Response p x) = Protocol p"

text \<open>
  The codec type of a command of any shape.
\<close>

fun codec_type :: "Command \<Rightarrow> byte" where
  "codec_type (V1Request q) = CodecPro q"
| "codec_type (V1Response p) = CodecPro p"
| "codec_type (V2Request q x) = CodecPro q"
| "codec_type (V2Response p x) = CodecPro p"

text \<open>
  The V2-only fields of a command, where the shape has them.
\<close>

fun v2_only :: "Command \<Rightarrow> V2Only option" where
  "v2_only (V1Request q) = None"
| "v2_only (V1Response p) = None"
| "v2_only (V2Request q x) = Some x"
| "v2_only (V2Response p x) = Some x"

text \<open>The request-only and the response-only field, where the shape has it.\<close>

fun carried_timeout :: "Command \<Rightarrow> 32 word option" where
  "carried_timeout (V1Request q) = Some (Timeout q)"
| "carried_timeout (V2Request q x) = Some (Timeout q)"
| "carried_timeout (V1Response p) = None"
| "carried_timeout (V2Response p x) = None"

text \<open>
  The response-only field, where the shape has it.
\<close>

fun carried_status :: "Command \<Rightarrow> 16 word option" where
  "carried_status (V1Response p) = Some (ResponseStatus p)"
| "carried_status (V2Response p x) = Some (ResponseStatus p)"
| "carried_status (V1Request q) = None"
| "carried_status (V2Request q x) = None"

text \<open>The commands that the functions of the file produce.\<close>

inductive produced :: "sofarpc \<Rightarrow> Command \<Rightarrow> bool" for k :: sofarpc where
  heartbeat: "produced k (V1Request (NewBoltHeartbeat k r))"
| heartbeat_ack: "produced k (V1Response (NewBoltHeartbeatAck k r))"

subsection \<open>What the design leaves to configuration\<close>

text \<open>
  Modelled from the spec: the wire value of each command type, the recognized set of
  command codes, the configured maximum frame size, the position of the CRC bit in the
  function switch and the CRC32 function itself are named by the design but not given a
  value; they are parameters of the codec model.
\<close>

record wire =
  type_code :: "cmd_type \<Rightarrow> byte"
  known_code :: "16 word \<Rightarrow> bool"
  max_frame :: nat
  crc_bit :: nat
  crc32 :: "byte list \<Rightarrow> 32 word"

subsection \<open>Big-endian integers\<close>

text \<open>
  Modelled from the spec: the codecs are declared outside this file; all multi-byte
  integers on the wire are big-endian. A 16-bit integer as two bytes.
\<close>

definition be16 :: "16 word \<Rightarrow> byte list" where
  "be16 v = [ucast (drop_bit 8 v), ucast v]"

text \<open>
  Modelled from the spec: the codecs are declared outside this file; a 32-bit integer as
  four bytes, big-endian.
\<close>

definition be32 :: "32 word \<Rightarrow> byte list" where
  "be32 v = [ucast (drop_bit 24 v), ucast (drop_bit 16 v), ucast (drop_bit 8 v), ucast v]"

text \<open>
  Modelled from the spec: the codecs are declared outside this file; the big-endian
  16-bit integer at an offset. The decoders read only below the length they have
  checked.
\<close>

definition rd16 :: "byte list \<Rightarrow> nat \<Rightarrow> 16 word" where
  "rd16 bs i = push_bit 8 (ucast (bs ! i)) OR ucast (bs ! (i + 1))"

text \<open>
  Modelled from the spec: the codecs are declared outside this file; the big-endian
  32-bit integer at an offset.
\<close>

definition rd32 :: "byte list \<Rightarrow> nat \<Rightarrow> 32 word" where
  "rd32 bs i = push_bit 24 (ucast (bs ! i)) OR push_bit 16 (ucast (bs ! (i + 1)))
                OR push_bit 8 (ucast (bs ! (i + 2))) OR ucast (bs ! (i + 3))"

subsection \<open>Encoding\<close>

text \<open>
  Modelled from the spec: the encoders are declared outside this file. An encoder lays
  out the fixed header fields in the order and widths of the wire table, then the class
  name, the header map and the content, then for a V2 frame that enables it the CRC32 of
  all bytes before it. A command of another version or direction than the layout is
  reported as \<open>WrongCommandShape\<close>, a span too long for its length field as
  \<open>FieldOverflow\<close>.
\<close>

text \<open>
  Modelled from the spec: the encoders are declared outside this file; a span overflows
  when its length does not fit its length field, 16 bits for the class name and the
  header map, 32 bits for the content.
\<close>

definition spans_fit :: "byte list \<Rightarrow> byte list \<Rightarrow> byte list \<Rightarrow> bool" where
  "spans_fit cn hm ct \<longleftrightarrow>
     length cn \<le> 65535 \<and> length hm \<le> 65535 \<and> length ct \<le> 4294967295"

text \<open>
  Modelled from the spec: the encoders are declared outside this file; the three length
  fields that end every fixed header: classLen and headerLen in two bytes each,
  contentLen in four.
\<close>

definition lengths :: "'a BoltCommand_scheme \<Rightarrow> byte list" where
  "lengths q =
     be16 (of_nat (length (ClassName q))) @ be16 (of_nat (length (HeaderMap q)))
     @ be32 (of_nat (length (Content q)))"

text \<open>
  Modelled from the spec: the encoders are declared outside this file; the variable part
  of a frame is the class name, the header map and the content, in that order.
\<close>

definition spans :: "'a BoltCommand_scheme \<Rightarrow> byte list" where
  "spans q = ClassName q @ HeaderMap q @ Content q"

text \<open>
  Modelled from the spec: the V1 encoder is declared outside this file; the 22 bytes of
  the fixed header of a V1 request, in the order of the wire table.
\<close>

definition header_request_v1 :: "wire \<Rightarrow> BoltRequestCommand \<Rightarrow> byte list" where
  "header_request_v1 w q =
     [Protocol q, type_code w (CmdType q)] @ be16 (CmdCode q) @ [Version q]
     @ be32 (ReqId q) @ [CodecPro q] @ be32 (Timeout q) @ lengths q"

text \<open>
  Modelled from the spec: the V1 encoder is declared outside this file; the 20 bytes of
  the fixed header of a V1 response.
\<close>

definition header_response_v1 :: "wire \<Rightarrow> BoltResponseCommand \<Rightarrow> byte list" where
  "header_response_v1 w p =
     [Protocol p, type_code w (CmdType p)] @ be16 (CmdCode p) @ [Version p]
     @ be32 (ReqId p) @ [CodecPro p] @ be16 (ResponseStatus p) @ lengths p"

text \<open>
  Modelled from the spec: the V2 encoder is declared outside this file; the 24 bytes of
  the fixed header of a V2 request: \<open>ver1\<close> comes before the type and the
  switch after the codec.
\<close>

definition header_request_v2 :: "wire \<Rightarrow> BoltRequestCommand \<Rightarrow> V2Only \<Rightarrow> byte list" where
  "header_request_v2 w q x =
     [Protocol q, protocolVersion x, type_code w (CmdType q)] @ be16 (CmdCode q)
     @ [Version q] @ be32 (ReqId q) @ [CodecPro q, functionSwitch x]
     @ be32 (Timeout q) @ lengths q"

text \<open>
  Modelled from the spec: the V2 encoder is declared outside this file; the 22 bytes of
  the fixed header of a V2 response.
\<close>

definition header_response_v2 :: "wire \<Rightarrow> BoltResponseCommand \<Rightarrow> V2Only \<Rightarrow> byte list" where
  "header_response_v2 w p x =
     [Protocol p, protocolVersion x, type_code w (CmdType p)] @ be16 (CmdCode p)
     @ [Version p] @ be32 (ReqId p) @ [CodecPro p, functionSwitch x]
     @ be16 (ResponseStatus p) @ lengths p"

text \<open>
  Modelled from the spec: the V2 codec is declared outside this file; a frame has a
  CRC32 trailer when its \<open>ver1\<close> is greater than 1 and the CRC bit of its
  switch is set.
\<close>

definition crc_enabled :: "wire \<Rightarrow> byte \<Rightarrow> byte \<Rightarrow> bool" where
  "crc_enabled w ver1 switch \<longleftrightarrow> 1 < ver1 \<and> bit switch (crc_bit w)"

text \<open>
  Modelled from the spec: the V2 encoder is declared outside this file; the trailer is
  the CRC32 of all bytes of the frame before it, or nothing when the frame does not
  enable it.
\<close>

definition trailer :: "wire \<Rightarrow> byte \<Rightarrow> byte \<Rightarrow> byte list \<Rightarrow> byte list" where
  "trailer w ver1 switch body =
     (if crc_enabled w ver1 switch then be32 (crc32 w body) else [])"

text \<open>
  Modelled from the spec: the encoder of \<^verbatim>\<open>boltV1Codec\<close>,
  declared outside this file.
\<close>

fun encode_v1 :: "wire \<Rightarrow> Command \<Rightarrow> error + byte list" where
  "encode_v1 w (V1Request q) =
     (if CmdType q = RESPONSE then Inl WrongCommandShape
      else if \<not> spans_fit (ClassName q) (HeaderMap q) (Content q) then Inl FieldOverflow
      else Inr (header_request_v1 w q @ spans q))"
| "encode_v1 w (V1Response p) =
     (if CmdType p \<noteq> RESPONSE then Inl WrongCommandShape
      else if \<not> spans_fit (ClassName p) (HeaderMap p) (Content p) then Inl FieldOverflow
      else Inr (header_response_v1 w p @ spans p))"
| "encode_v1 w (V2Request q x) = Inl WrongCommandShape"
| "encode_v1 w (V2Response p x) = Inl WrongCommandShape"

text \<open>
  Modelled from the spec: the encoder of \<^verbatim>\<open>boltV2Codec\<close>,
  declared outside this file.
\<close>

fun encode_v2 :: "wire \<Rightarrow> Command \<Rightarrow> error + byte list" where
  "encode_v2 w (V2Request q x) =
     (if CmdType q = RESPONSE then Inl WrongCommandShape
      else if \<not> spans_fit (ClassName q) (HeaderMap q) (Content q) then Inl FieldOverflow
      else
        let body = header_request_v2 w q x @ spans q
        in Inr (body @ trailer w (protocolVersion x) (functionSwitch x) body))"
| "encode_v2 w (V2Response p x) =
     (if CmdType p \<noteq> RESPONSE then Inl WrongCommandShape
      else if \<not> spans_fit (ClassName p) (HeaderMap p) (Content p) then Inl FieldOverflow
      else
        let body = header_response_v2 w p x @ spans p
        in Inr (body @ trailer w (protocolVersion x) (functionSwitch x) body))"
| "encode_v2 w (V1Request q) = Inl WrongCommandShape"
| "encode_v2 w (V1Response p) = Inl WrongCommandShape"

subsection \<open>Decoding\<close>

text \<open>
  Modelled from the spec: the decoders are declared outside this file. A decoder is given
  the bytes accumulated so far and the offset already consumed. It answers
  \<open>Incomplete\<close> when fewer bytes are there than the frame requires at the current stage
  (nothing is consumed), \<open>Malformed\<close> when the type or the command code is outside the
  recognized set, when a declared length exceeds the configured maximum or when the CRC32
  of a V2 frame does not match, and otherwise \<open>Decoded\<close> with the command and the number
  of bytes of the frame. The layout is selected by the type field, at offset 1 in a V1
  frame and at offset 2 in a V2 frame; all integers are big-endian, at the offsets of the
  wire table.
\<close>

text \<open>
  Modelled from the spec: the three outcomes of a decoder, declared outside this file.
\<close>

datatype decode_result = Incomplete | Decoded Command nat | Malformed

text \<open>
  Modelled from the spec: the decoders are declared outside this file; a declared length
  that exceeds the configured maximum frame size makes the frame malformed.
\<close>

definition too_long :: "wire \<Rightarrow> nat \<Rightarrow> nat \<Rightarrow> nat \<Rightarrow> bool" where
  "too_long w classLen headerLen contentLen \<longleftrightarrow>
     max_frame w < classLen \<or> max_frame w < headerLen \<or> max_frame w < contentLen"

text \<open>
  Modelled from the spec: the decoder of \<^verbatim>\<open>boltV1Codec\<close>,
  declared outside this file, on the request layout.
\<close>

definition decode_request_v1 :: "wire \<Rightarrow> cmd_type \<Rightarrow> byte list \<Rightarrow> decode_result" where
  "decode_request_v1 w ty bs =
     (if length bs < nat REQUEST_HEADER_LEN_V1 then Incomplete
      else
        let classLen = unat (rd16 bs 14);
            headerLen = unat (rd16 bs 16);
            contentLen = unat (rd32 bs 18);
            h = nat REQUEST_HEADER_LEN_V1;
            total = h + classLen + headerLen + contentLen
        in if \<not> known_code w (rd16 bs 2) then Malformed
           else if too_long w classLen headerLen contentLen then Malformed
           else if length bs < total then Incomplete
           else Decoded (V1Request
                  \<lparr> Protocol = bs ! 0,
                    CmdType = ty,
                    CmdCode = rd16 bs 2,
                    Version = bs ! 4,
                    ReqId = rd32 bs 5,
                    CodecPro = bs ! 9,
                    ClassName = take classLen (drop h bs),
                    HeaderMap = take headerLen (drop (h + classLen) bs),
                    Content = take contentLen (drop (h + classLen + headerLen) bs),
                    Timeout = rd32 bs 10 \<rparr>) total)"

text \<open>
  Modelled from the spec: the decoder of \<^verbatim>\<open>boltV1Codec\<close>,
  declared outside this file, on the response layout.
\<close>

definition decode_response_v1 :: "wire \<Rightarrow> byte list \<Rightarrow> decode_result" where
  "decode_response_v1 w bs =
     (if length bs < nat RESPONSE_HEADER_LEN_V1 then Incomplete
      else
        let classLen = unat (rd16 bs 12);
            headerLen = unat (rd16 bs 14);
            contentLen = unat (rd32 bs 16);
            h = nat RESPONSE_HEADER_LEN_V1;
            total = h + classLen + headerLen + contentLen
        in if \<not> known_code w (rd16 bs 2) then Malformed
           else if too_long w classLen headerLen contentLen then Malformed
           else if length bs < total then Incomplete
           else Decoded (V1Response
                  \<lparr> Protocol = bs ! 0,
                    CmdType = RESPONSE,
                    CmdCode = rd16 bs 2,
                    Version = bs ! 4,
                    ReqId = rd32 bs 5,
                    CodecPro = bs ! 9,
                    ClassName = take classLen (drop h bs),
                    HeaderMap = take headerLen (drop (h + classLen) bs),
                    Content = take contentLen (drop (h + classLen + headerLen) bs),
                    ResponseStatus = rd16 bs 10 \<rparr>) total)"

text \<open>
  Modelled from the spec: the decoder of \<^verbatim>\<open>boltV1Codec\<close>,
  declared outside this file; the layout is selected by the type field at offset 1.
\<close>

definition decode_v1 :: "wire \<Rightarrow> byte list \<Rightarrow> nat \<Rightarrow> decode_result" where
  "decode_v1 w buf off =
     (let bs = drop off buf
      in if length bs < 2 then Incomplete
         else if bs ! 1 = type_code w RESPONSE then decode_response_v1 w bs
         else if bs ! 1 = type_code w REQUEST then decode_request_v1 w REQUEST bs
         else if bs ! 1 = type_code w REQUEST_ONEWAY then decode_request_v1 w REQUEST_ONEWAY bs
         else Malformed)"

text \<open>
  Modelled from the spec: the decoder of \<^verbatim>\<open>boltV2Codec\<close>, declared outside this
  file, at the end of the spans. A V2 frame ends there, or, when its \<open>ver1\<close> is greater
  than 1 and the CRC bit of its switch is set, after four more bytes: the frame is
  incomplete until they have arrived, and malformed when they do not hold the CRC32 of all
  the bytes before them.
\<close>

definition check_trailer :: "wire \<Rightarrow> byte list \<Rightarrow> nat \<Rightarrow> Command \<Rightarrow> decode_result" where
  "check_trailer w bs body c =
     (if crc_enabled w (bs ! 1) (bs ! 11) then
        (if length bs < body + 4 then Incomplete
         else if rd32 bs body \<noteq> crc32 w (take body bs) then Malformed
         else Decoded c (body + 4))
      else Decoded c body)"

text \<open>
  Modelled from the spec: the decoder of \<^verbatim>\<open>boltV2Codec\<close>,
  declared outside this file, on the request layout.
\<close>

definition decode_request_v2 :: "wire \<Rightarrow> cmd_type \<Rightarrow> byte list \<Rightarrow> decode_result" where
  "decode_request_v2 w ty bs =
     (if length bs < nat REQUEST_HEADER_LEN_V2 then Incomplete
      else
        let classLen = unat (rd16 bs 16);
            headerLen = unat (rd16 bs 18);
            contentLen = unat (rd32 bs 20);
            h = nat REQUEST_HEADER_LEN_V2;
            body = h + classLen + headerLen + contentLen
        in if \<not> known_code w (rd16 bs 3) then Malformed
           else if too_long w classLen headerLen contentLen then Malformed
           else if length bs < body then Incomplete
           else check_trailer w bs body (V2Request
                  \<lparr> Protocol = bs ! 0,
                    CmdType = ty,
                    CmdCode = rd16 bs 3,
                    Version = bs ! 5,
                    ReqId = rd32 bs 6,
                    CodecPro = bs ! 10,
                    ClassName = take classLen (drop h bs),
                    HeaderMap = take headerLen (drop (h + classLen) bs),
                    Content = take contentLen (drop (h + classLen + headerLen) bs),
                    Timeout = rd32 bs 12 \<rparr>
                  \<lparr> protocolVersion = bs ! 1, functionSwitch = bs ! 11 \<rparr>))"

text \<open>
  Modelled from the spec: the decoder of \<^verbatim>\<open>boltV2Codec\<close>,
  declared outside this file, on the response layout.
\<close>

definition decode_response_v2 :: "wire \<Rightarrow> byte list \<Rightarrow> decode_result" where
  "decode_response_v2 w bs =
     (if length bs < nat RESPONSE_HEADER_LEN_V2 then Incomplete
      else
        let classLen = unat (rd16 bs 14);
            headerLen = unat (rd16 bs 16);
            contentLen = unat (rd32 bs 18);
            h = nat RESPONSE_HEADER_LEN_V2;
            body = h + classLen + headerLen + contentLen
        in if \<not> known_code w (rd16 bs 3) then Malformed
           else if too_long w classLen headerLen contentLen then Malformed
           else if length bs < body then Incomplete
           else check_trailer w bs body (V2Response
                  \<lparr> Protocol = bs ! 0,
                    CmdType = RESPONSE,
                    CmdCode = rd16 bs 3,
                    Version = bs ! 5,
                    ReqId = rd32 bs 6,
                    CodecPro = bs ! 10,
                    ClassName = take classLen (drop h bs),
                    HeaderMap = take headerLen (drop (h + classLen) bs),
                    Content = take contentLen (drop (h + classLen + headerLen) bs),
                    ResponseStatus = rd16 bs 12 \<rparr>
                  \<lparr> protocolVersion = bs ! 1, functionSwitch = bs ! 11 \<rparr>))"

text \<open>
  Modelled from the spec: the decoder of \<^verbatim>\<open>boltV2Codec\<close>,
  declared outside this file; the layout is selected by the type field at offset 2.
\<close>

definition decode_v2 :: "wire \<Rightarrow> byte list \<Rightarrow> nat \<Rightarrow> decode_result" where
  "decode_v2 w buf off =
     (let bs = drop off buf
      in if length bs < 3 then Incomplete
         else if bs ! 2 = type_code w RESPONSE then decode_response_v2 w bs
         else if bs ! 2 = type_code w REQUEST then decode_request_v2 w REQUEST bs
         else if bs ! 2 = type_code w REQUEST_ONEWAY then decode_request_v2 w REQUEST_ONEWAY bs
         else Malformed)"

subsection \<open>Dispatch through the registry\<close>

text \<open>
  Modelled from the spec: inbound bytes go to the decoder of the descriptor registered
  under their first byte, an outbound command to the encoder of the descriptor registered
  under its protocol code; a byte or code that nothing is registered under is an
  \<open>UnknownProtocol\<close> error.
\<close>

text \<open>
  Modelled from the spec: the encoder that a codec value stands for; both codec types
  are declared outside this file.
\<close>

fun run_encoder :: "wire \<Rightarrow> codec \<Rightarrow> Command \<Rightarrow> error + byte list" where
  "run_encoder w boltV1Codec c = encode_v1 w c"
| "run_encoder w boltV2Codec c = encode_v2 w c"

text \<open>
  Modelled from the spec: the decoder that a codec value stands for; both codec types
  are declared outside this file.
\<close>

fun run_decoder :: "wire \<Rightarrow> codec \<Rightarrow> byte list \<Rightarrow> nat \<Rightarrow> decode_result" where
  "run_decoder w boltV1Codec buf off = decode_v1 w buf off"
| "run_decoder w boltV2Codec buf off = decode_v2 w buf off"

text \<open>
  Modelled from the spec: the dispatch of an outbound command, declared outside this
  file, to the encoder of the descriptor registered under its protocol code.
\<close>

definition encode :: "wire \<Rightarrow> registry \<Rightarrow> Command \<Rightarrow> error + byte list" where
  "encode w reg c =
     (case lookup (protocol_code c) reg of
        Inl e \<Rightarrow> Inl e
      | Inr d \<Rightarrow> run_encoder w (fst (GetEncoder d)) c)"

text \<open>
  Modelled from the spec: the dispatch of inbound bytes, declared outside this file, to
  the decoder of the descriptor registered under their first byte.
\<close>

definition decode :: "wire \<Rightarrow> registry \<Rightarrow> byte list \<Rightarrow> nat \<Rightarrow> error + decode_result" where
  "decode w reg buf off =
     (if length buf \<le> off then Inr Incomplete
      else case lookup (buf ! off) reg of
             Inl e \<Rightarrow> Inl e
           | Inr d \<Rightarrow> Inr (run_decoder w (fst (GetDecoder d)) buf off))"

text \<open>
  Modelled from the spec: the frame layout is declared outside this file; the number of
  bytes of the three spans.
\<close>

definition spans_length :: "'a BoltCommand_scheme \<Rightarrow> nat" where
  "spans_length q = length (ClassName q) + length (HeaderMap q) + length (Content q)"

text \<open>
  Modelled from the spec: the frame layout is declared outside this file; the bytes of a
  frame before any trailer are the fixed header of its shape and the three spans.
\<close>

fun body_length :: "Command \<Rightarrow> nat" where
  "body_length (V1Request q) = nat REQUEST_HEADER_LEN_V1 + spans_length q"
| "body_length (V1Response p) = nat RESPONSE_HEADER_LEN_V1 + spans_length p"
| "body_length (V2Request q x) = nat REQUEST_HEADER_LEN_V2 + spans_length q"
| "body_length (V2Response p x) = nat RESPONSE_HEADER_LEN_V2 + spans_length p"

text \<open>
  Modelled from the spec: validity of a command is stated by the design, not by this
  file: the command code is recognized and each span fits its length field and the
  configured maximum.
\<close>

definition valid_fields :: "wire \<Rightarrow> 'a BoltCommand_scheme \<Rightarrow> bool" where
  "valid_fields w q \<longleftrightarrow>
     known_code w (CmdCode q)
     \<and> spans_fit (ClassName q) (HeaderMap q) (Content q)
     \<and> \<not> too_long w (length (ClassName q)) (length (HeaderMap q)) (length (Content q))"

text \<open>
  Modelled from the spec: a valid command has the discriminator of its wire version as
  protocol code and a type that agrees with its direction, besides valid fields.
\<close>

fun valid_command :: "wire \<Rightarrow> Command \<Rightarrow> bool" where
  "valid_command w (V1Request q) \<longleftrightarrow>
     Protocol q = PROTOCOL_CODE_V1 \<and> CmdType q \<noteq> RESPONSE \<and> valid_fields w q"
| "valid_command w (V1Response p) \<longleftrightarrow>
     Protocol p = PROTOCOL_CODE_V1 \<and> CmdType p = RESPONSE \<and> valid_fields w p"
| "valid_command w (V2Request q x) \<longleftrightarrow>
     Protocol q = PROTOCOL_CODE_V2 \<and> CmdType q \<noteq> RESPONSE \<and> valid_fields w q"
| "valid_command w (V2Response p x) \<longleftrightarrow>
     Protocol p = PROTOCOL_CODE_V2 \<and> CmdType p = RESPONSE \<and> valid_fields w p"

subsection \<open>An example configuration\<close>

text \<open>
  Example values for the parameters, on which the model is evaluated below: a value for
  each constant that the file takes from package sofarpc, a wire configuration whose
  checksum is the sum of the bytes, and two V2 requests that differ only in the CRC bit
  of their function switch.
\<close>

definition example_sofarpc :: sofarpc where
  "example_sofarpc = \<lparr> HEARTBEAT = 0, HESSIAN_SERIALIZE = 1 \<rparr>"

fun example_type_code :: "cmd_type \<Rightarrow> byte" where
  "example_type_code RESPONSE = 0"
| "example_type_code REQUEST = 1"
| "example_type_code REQUEST_ONEWAY = 2"

definition example_wire :: wire where
  "example_wire = \<lparr> type_code = example_type_code,
                     known_code = (\<lambda>c. c \<le> 2),
                     max_frame = 1024,
                     crc_bit = 0,
                     crc32 = (\<lambda>bs. sum_list (map ucast bs)) \<rparr>"

definition example_crc_request :: Command where
  "example_crc_request =
     V2Request \<lparr> Protocol = 2, CmdType = REQUEST, CmdCode = 1, Version = 1, ReqId = 7,
                 CodecPro = 1, ClassName = [97], HeaderMap = [], Content = [1, 2],
                 Timeout = 100 \<rparr>
               \<lparr> protocolVersion = 2, functionSwitch = 1 \<rparr>"

definition example_plain_request :: Command where
  "example_plain_request =
     V2Request \<lparr> Protocol = 2, CmdType = REQUEST, CmdCode = 1, Version = 1, ReqId = 7,
                 CodecPro = 1, ClassName = [97], HeaderMap = [], Content = [1, 2],
                 Timeout = 100 \<rparr>
               \<lparr> protocolVersion = 2, functionSwitch = 0 \<rparr>"

section \<open>Properties\<close>

lemma init_empty:
  "init [] = Inr [(PROTOCOL_CODE_V1, BoltV1), (PROTOCOL_CODE_V2, BoltV2)]"
  by (simp add: init_def init_with_def RegisterProtocol_def PROTOCOL_CODE_V1_def
      PROTOCOL_CODE_V2_def)

lemma lookup_after_init:
  "lookup b [(PROTOCOL_CODE_V1, BoltV1), (PROTOCOL_CODE_V2, BoltV2)] =
     (if b = PROTOCOL_CODE_V1 then Inr BoltV1
      else if b = PROTOCOL_CODE_V2 then Inr BoltV2
      else Inl UnknownProtocol)"
  by (simp add: lookup_def)

text \<open>
  C1. For every request id \<open>r\<close>, the heartbeat request constructor returns a request
  command with protocol code V1, command type REQUEST, command code HEARTBEAT, version 1,
  request id \<open>r\<close>, timeout -1 (as a signed 32-bit value) and the codec type the code uses
  as its default, the constant HESSIAN_SERIALIZE.
\<close>

theorem NewBoltHeartbeat_fields:
  "Protocol (NewBoltHeartbeat k r) = PROTOCOL_CODE_V1
   \<and> CmdType (NewBoltHeartbeat k r) = REQUEST
   \<and> CmdCode (NewBoltHeartbeat k r) = HEARTBEAT k
   \<and> Version (NewBoltHeartbeat k r) = 1
   \<and> ReqId (NewBoltHeartbeat k r) = r
   \<and> sint (Timeout (NewBoltHeartbeat k r)) = - 1
   \<and> CodecPro (NewBoltHeartbeat k r) = HESSIAN_SERIALIZE k"
  by (simp add: NewBoltHeartbeat_def)

text \<open>
  C2. For every request id \<open>r\<close>, the heartbeat ack constructor returns a command of
  type RESPONSE whose request id is \<open>r\<close> and whose response status is SUCCESS.
\<close>

theorem NewBoltHeartbeatAck_fields:
  "CmdType (NewBoltHeartbeatAck k r) = RESPONSE
   \<and> ReqId (NewBoltHeartbeatAck k r) = r
   \<and> ResponseStatus (NewBoltHeartbeatAck k r) = RESPONSE_STATUS_SUCCESS"
  by (simp add: NewBoltHeartbeatAck_def)

text \<open>
  C3. After the package initialisation, the descriptor found under discriminator byte 1
  reports a request header length of 22 and a response header length of 20, and the
  descriptor found under byte 2 reports 24 and 22, through
  \<open>GetRequestHeaderLength\<close> and \<open>GetResponseHeaderLength\<close>.
\<close>

theorem registered_header_lengths:
  "\<exists>reg d1 d2. init [] = Inr reg
     \<and> lookup 1 reg = Inr d1
     \<and> fst (GetRequestHeaderLength d1) = 22
     \<and> fst (GetResponseHeaderLength d1) = 20
     \<and> lookup 2 reg = Inr d2
     \<and> fst (GetRequestHeaderLength d2) = 24
     \<and> fst (GetResponseHeaderLength d2) = 22"
proof -
  let ?reg = "[(PROTOCOL_CODE_V1, BoltV1), (PROTOCOL_CODE_V2, BoltV2)]"
  have l1: "lookup 1 ?reg = Inr BoltV1"
    by (simp add: lookup_def PROTOCOL_CODE_V1_def)
  have l2: "lookup 2 ?reg = Inr BoltV2"
    by (simp add: lookup_def PROTOCOL_CODE_V1_def PROTOCOL_CODE_V2_def)
  have v1: "fst (GetRequestHeaderLength BoltV1) = 22 \<and> fst (GetResponseHeaderLength BoltV1) = 20"
    by (simp add: GetRequestHeaderLength_def GetResponseHeaderLength_def BoltV1_def
        REQUEST_HEADER_LEN_V1_def RESPONSE_HEADER_LEN_V1_def)
  have v2: "fst (GetRequestHeaderLength BoltV2) = 24 \<and> fst (GetResponseHeaderLength BoltV2) = 22"
    by (simp add: GetRequestHeaderLength_def GetResponseHeaderLength_def BoltV2_def
        REQUEST_HEADER_LEN_V2_def RESPONSE_HEADER_LEN_V2_def)
  from init_empty l1 l2 v1 v2 show ?thesis by blast
qed


text \<open>
  C9. A descriptor is a pure value holder: on a descriptor built from six components,
  each getter returns the component it is named after, every getter leaves every field of
  the descriptor as it was, and so a second call of a getter returns what the first did.
\<close>

theorem getters_pure:
  "b = \<lparr> protocolCode = pc, requestHeaderLen = rq, responseHeaderLen = rs,
         encoder = en, decoder = de, commandHandler = ha \<rparr> \<longrightarrow>
     GetRequestHeaderLength b = (rq, b)
     \<and> GetResponseHeaderLength b = (rs, b)
     \<and> GetEncoder b = (en, b)
     \<and> GetDecoder b = (de, b)
     \<and> GetCommandHandler b = (ha, b)
     \<and> GetRequestHeaderLength (snd (GetRequestHeaderLength b)) = GetRequestHeaderLength b
     \<and> GetResponseHeaderLength (snd (GetResponseHeaderLength b)) = GetResponseHeaderLength b
     \<and> GetEncoder (snd (GetEncoder b)) = GetEncoder b
     \<and> GetDecoder (snd (GetDecoder b)) = GetDecoder b
     \<and> GetCommandHandler (snd (GetCommandHandler b)) = GetCommandHandler b"
  by (simp add: GetRequestHeaderLength_def GetResponseHeaderLength_def GetEncoder_def
      GetDecoder_def GetCommandHandler_def)

theorem getters_pure_witness:
  "GetRequestHeaderLength BoltV1 = (22, BoltV1)
   \<and> GetResponseHeaderLength BoltV1 = (20, BoltV1)
   \<and> GetEncoder BoltV1 = (boltV1Codec, BoltV1)
   \<and> GetDecoder BoltV1 = (boltV1Codec, BoltV1)
   \<and> GetCommandHandler BoltV1 = (NewBoltCommandHandler, BoltV1)"
  using getters_pure [of BoltV1 PROTOCOL_CODE_V1 22 20 boltV1Codec boltV1Codec
      NewBoltCommandHandler]
  by (simp add: BoltV1_def REQUEST_HEADER_LEN_V1_def RESPONSE_HEADER_LEN_V1_def)

text \<open>
  C10. Each descriptor carries as its own protocol code the discriminator under which
  the package initialisation registers it, so after the initialisation a lookup by any
  byte that succeeds yields a descriptor whose protocol code is that byte.
\<close>

theorem registered_code_is_own_code:
  "protocolCode BoltV1 = PROTOCOL_CODE_V1
   \<and> protocolCode BoltV2 = PROTOCOL_CODE_V2
   \<and> (\<exists>reg. init [] = Inr reg
        \<and> lookup PROTOCOL_CODE_V1 reg = Inr BoltV1
        \<and> lookup PROTOCOL_CODE_V2 reg = Inr BoltV2
        \<and> (\<forall>d. lookup b reg = Inr d \<longrightarrow> protocolCode d = b))"
proof -
  let ?reg = "[(PROTOCOL_CODE_V1, BoltV1), (PROTOCOL_CODE_V2, BoltV2)]"
  have c1: "protocolCode BoltV1 = PROTOCOL_CODE_V1"
    by (simp add: BoltV1_def)
  have c2: "protocolCode BoltV2 = PROTOCOL_CODE_V2"
    by (simp add: BoltV2_def)
  have "\<forall>d. lookup b ?reg = Inr d \<longrightarrow> protocolCode d = b"
    unfolding lookup_after_init using c1 c2 by (auto split: if_splits)
  moreover have "lookup PROTOCOL_CODE_V1 ?reg = Inr BoltV1"
    by (simp add: lookup_after_init)
  moreover have "lookup PROTOCOL_CODE_V2 ?reg = Inr BoltV2"
    by (simp add: lookup_def PROTOCOL_CODE_V1_def PROTOCOL_CODE_V2_def)
  ultimately show ?thesis
    using init_empty c1 c2 by simp
qed

theorem registered_code_is_own_code_witness:
  "lookup 2 [(PROTOCOL_CODE_V1, BoltV1), (PROTOCOL_CODE_V2, BoltV2)] = Inr BoltV2
   \<and> protocolCode BoltV2 = 2"
proof -
  have l: "lookup 2 [(PROTOCOL_CODE_V1, BoltV1), (PROTOCOL_CODE_V2, BoltV2)] = Inr BoltV2"
    by (simp add: lookup_def PROTOCOL_CODE_V1_def PROTOCOL_CODE_V2_def)
  from registered_code_is_own_code [of 2] init_empty l show ?thesis
    by auto
qed

subsection \<open>The heartbeat commands and their shape\<close>

text \<open>
  C6, the claim as stated fails. The heartbeat constructors fix a codec type that no frame
  declared: with the constant HESSIAN_SERIALIZE set to 1, a heartbeat and a heartbeat ack
  built for request id 42 both carry codec type 1, and the ack built for the request id of
  a request that declares codec type 0 carries codec type 1, not the 0 of that request.
\<close>

theorem heartbeat_codec_counterexample:
  "CodecPro (NewBoltHeartbeat example_sofarpc 42) = 1
   \<and> CodecPro (NewBoltHeartbeatAck example_sofarpc 42) = 1
   \<and> CodecPro (NewBoltHeartbeatAck example_sofarpc
        (ReqId \<lparr> Protocol = 1, CmdType = REQUEST, CmdCode = 0, Version = 1, ReqId = 42,
                 CodecPro = 0, ClassName = [], HeaderMap = [], Content = [],
                 Timeout = - 1 \<rparr>))
     \<noteq> CodecPro \<lparr> Protocol = 1, CmdType = REQUEST, CmdCode = 0, Version = 1, ReqId = 42,
                  CodecPro = 0, ClassName = [], HeaderMap = [], Content = [],
                  Timeout = - 1 :: 32 word \<rparr>"
  by (simp add: NewBoltHeartbeat_def NewBoltHeartbeatAck_def example_sofarpc_def)

text \<open>
  C7. A command that the constructors of the file produce carries no response status
  when its type is REQUEST or REQUEST_ONEWAY, and no timeout when its type is RESPONSE.
  In particular the heartbeat request has type REQUEST, carries the timeout -1 and no
  response status, and the heartbeat ack has type RESPONSE, carries the response status
  SUCCESS and no timeout.
\<close>

theorem shape_fields:
  "(produced k c \<longrightarrow>
      (command_type c = REQUEST \<or> command_type c = REQUEST_ONEWAY \<longrightarrow> carried_status c = None)
      \<and> (command_type c = RESPONSE \<longrightarrow> carried_timeout c = None))
   \<and> command_type (V1Request (NewBoltHeartbeat k r)) = REQUEST
   \<and> carried_timeout (V1Request (NewBoltHeartbeat k r)) = Some (- 1)
   \<and> carried_status (V1Request (NewBoltHeartbeat k r)) = None
   \<and> command_type (V1Response (NewBoltHeartbeatAck k r)) = RESPONSE
   \<and> carried_status (V1Response (NewBoltHeartbeatAck k r)) = Some RESPONSE_STATUS_SUCCESS
   \<and> carried_timeout (V1Response (NewBoltHeartbeatAck k r)) = None"
proof -
  have "(command_type c = REQUEST \<or> command_type c = REQUEST_ONEWAY \<longrightarrow> carried_status c = None)
      \<and> (command_type c = RESPONSE \<longrightarrow> carried_timeout c = None)" if "produced k c"
    using that by cases (simp_all add: NewBoltHeartbeat_def NewBoltHeartbeatAck_def)
  then show ?thesis
    by (simp add: NewBoltHeartbeat_def NewBoltHeartbeatAck_def)
qed

theorem shape_fields_witness:
  "produced example_sofarpc (V1Request (NewBoltHeartbeat example_sofarpc 42))
   \<and> command_type (V1Request (NewBoltHeartbeat example_sofarpc 42)) = REQUEST
   \<and> carried_status (V1Request (NewBoltHeartbeat example_sofarpc 42)) = None
   \<and> produced example_sofarpc (V1Response (NewBoltHeartbeatAck example_sofarpc 42))
   \<and> command_type (V1Response (NewBoltHeartbeatAck example_sofarpc 42)) = RESPONSE
   \<and> carried_timeout (V1Response (NewBoltHeartbeatAck example_sofarpc 42)) = None"
  using shape_fields [of example_sofarpc "V1Request (NewBoltHeartbeat example_sofarpc 42)" 42]
    shape_fields [of example_sofarpc "V1Response (NewBoltHeartbeatAck example_sofarpc 42)" 42]
    produced.heartbeat [of example_sofarpc 42] produced.heartbeat_ack [of example_sofarpc 42]
  by simp

section \<open>Properties of the frame codecs\<close>

subsection \<open>Big-endian integers and the fixed headers\<close>

lemma join16: "push_bit 8 (ucast (ucast (drop_bit 8 v) :: byte)) OR ucast (ucast v :: byte) = (v :: 16 word)"
  by (rule bit_word_eqI) (auto simp: bit_simps)

lemma join32:
  "push_bit 24 (ucast (ucast (drop_bit 24 v) :: byte))
   OR push_bit 16 (ucast (ucast (drop_bit 16 v) :: byte))
   OR push_bit 8 (ucast (ucast (drop_bit 8 v) :: byte))
   OR ucast (ucast v :: byte) = (v :: 32 word)" (is "?l = v")
proof (rule bit_word_eqI)
  fix n assume n: "n < LENGTH(32)"
  consider "n < 8" | "8 \<le> n" "n < 16" | "16 \<le> n" "n < 24" | "24 \<le> n" by linarith
  then show "bit ?l n = bit v n"
    using n by cases (auto simp: bit_simps)
qed

lemma rd32_at: "rd32 (a @ be32 v @ rest) (length a) = v"
  by (simp add: rd32_def be32_def nth_append join32)

lemma unat_len16: "n \<le> 65535 \<Longrightarrow> unat (of_nat n :: 16 word) = n"
  by (simp add: unat_of_nat)

lemma unat_len32: "n \<le> 4294967295 \<Longrightarrow> unat (of_nat n :: 32 word) = n"
  by (simp add: unat_of_nat)

lemma read_spans:
  assumes "length hdr = h"
  shows "take (length (ClassName q)) (drop h (hdr @ spans q @ post)) = ClassName q"
    and "take (length (HeaderMap q)) (drop (h + length (ClassName q)) (hdr @ spans q @ post))
         = HeaderMap q"
    and "take (length (Content q))
           (drop (h + length (ClassName q) + length (HeaderMap q)) (hdr @ spans q @ post))
         = Content q"
  using assms by (simp_all add: spans_def)

lemma length_spans: "length (spans q) = spans_length q"
  by (simp add: spans_def spans_length_def)

lemma select_request_v1:
  assumes "inj (type_code w)" and "t \<noteq> RESPONSE" and "2 \<le> length bs"
    and "bs ! 1 = type_code w t"
  shows "decode_v1 w (pre @ bs) (length pre) = decode_request_v1 w t bs"
  using assms by (cases t) (simp_all add: decode_v1_def inj_eq)

lemma select_response_v1:
  assumes "2 \<le> length bs" and "bs ! 1 = type_code w RESPONSE"
  shows "decode_v1 w (pre @ bs) (length pre) = decode_response_v1 w bs"
  using assms by (simp add: decode_v1_def)

lemma select_request_v2:
  assumes "inj (type_code w)" and "t \<noteq> RESPONSE" and "3 \<le> length bs"
    and "bs ! 2 = type_code w t"
  shows "decode_v2 w (pre @ bs) (length pre) = decode_request_v2 w t bs"
  using assms by (cases t) (simp_all add: decode_v2_def inj_eq)

lemma select_response_v2:
  assumes "3 \<le> length bs" and "bs ! 2 = type_code w RESPONSE"
  shows "decode_v2 w (pre @ bs) (length pre) = decode_response_v2 w bs"
  using assms by (simp add: decode_v2_def)

lemma header_request_v1_reads:
  "length (header_request_v1 w q) = 22"
  "(header_request_v1 w q @ rest) ! 0 = Protocol q"
  "(header_request_v1 w q @ rest) ! 1 = type_code w (CmdType q)"
  "rd16 (header_request_v1 w q @ rest) 2 = CmdCode q"
  "(header_request_v1 w q @ rest) ! 4 = Version q"
  "rd32 (header_request_v1 w q @ rest) 5 = ReqId q"
  "(header_request_v1 w q @ rest) ! 9 = CodecPro q"
  "rd32 (header_request_v1 w q @ rest) 10 = Timeout q"
  "rd16 (header_request_v1 w q @ rest) 14 = of_nat (length (ClassName q))"
  "rd16 (header_request_v1 w q @ rest) 16 = of_nat (length (HeaderMap q))"
  "rd32 (header_request_v1 w q @ rest) 18 = of_nat (length (Content q))"
  by (simp_all add: header_request_v1_def lengths_def be16_def be32_def rd16_def rd32_def
      join16 join32)

lemma header_response_v1_reads:
  "length (header_response_v1 w p) = 20"
  "(header_response_v1 w p @ rest) ! 0 = Protocol p"
  "(header_response_v1 w p @ rest) ! 1 = type_code w (CmdType p)"
  "rd16 (header_response_v1 w p @ rest) 2 = CmdCode p"
  "(header_response_v1 w p @ rest) ! 4 = Version p"
  "rd32 (header_response_v1 w p @ rest) 5 = ReqId p"
  "(header_response_v1 w p @ rest) ! 9 = CodecPro p"
  "rd16 (header_response_v1 w p @ rest) 10 = ResponseStatus p"
  "rd16 (header_response_v1 w p @ rest) 12 = of_nat (length (ClassName p))"
  "rd16 (header_response_v1 w p @ rest) 14 = of_nat (length (HeaderMap p))"
  "rd32 (header_response_v1 w p @ rest) 16 = of_nat (length (Content p))"
  by (simp_all add: header_response_v1_def lengths_def be16_def be32_def rd16_def rd32_def
      join16 join32)

lemma header_request_v2_reads:
  "length (header_request_v2 w q x) = 24"
  "(header_request_v2 w q x @ rest) ! 0 = Protocol q"
  "(header_request_v2 w q x @ rest) ! 1 = protocolVersion x"
  "(header_request_v2 w q x @ rest) ! 2 = type_code w (CmdType q)"
  "rd16 (header_request_v2 w q x @ rest) 3 = CmdCode q"
  "(header_request_v2 w q x @ rest) ! 5 = Version q"
  "rd32 (header_request_v2 w q x @ rest) 6 = ReqId q"
  "(header_request_v2 w q x @ rest) ! 10 = CodecPro q"
  "(header_request_v2 w q x @ rest) ! 11 = functionSwitch x"
  "rd32 (header_request_v2 w q x @ rest) 12 = Timeout q"
  "rd16 (header_request_v2 w q x @ rest) 16 = of_nat (length (ClassName q))"
  "rd16 (header_request_v2 w q x @ rest) 18 = of_nat (length (HeaderMap q))"
  "rd32 (header_request_v2 w q x @ rest) 20 = of_nat (length (Content q))"
  "(header_request_v2 w q x @ rest) ! Suc 0 = protocolVersion x"
  by (simp_all add: header_request_v2_def lengths_def be16_def be32_def rd16_def rd32_def
      join16 join32)

lemma header_response_v2_reads:
  "length (header_response_v2 w p x) = 22"
  "(header_response_v2 w p x @ rest) ! 0 = Protocol p"
  "(header_response_v2 w p x @ rest) ! 1 = protocolVersion x"
  "(header_response_v2 w p x @ rest) ! 2 = type_code w (CmdType p)"
  "rd16 (header_response_v2 w p x @ rest) 3 = CmdCode p"
  "(header_response_v2 w p x @ rest) ! 5 = Version p"
  "rd32 (header_response_v2 w p x @ rest) 6 = ReqId p"
  "(header_response_v2 w p x @ rest) ! 10 = CodecPro p"
  "(header_response_v2 w p x @ rest) ! 11 = functionSwitch x"
  "rd16 (header_response_v2 w p x @ rest) 12 = ResponseStatus p"
  "rd16 (header_response_v2 w p x @ rest) 14 = of_nat (length (ClassName p))"
  "rd16 (header_response_v2 w p x @ rest) 16 = of_nat (length (HeaderMap p))"
  "rd32 (header_response_v2 w p x @ rest) 18 = of_nat (length (Content p))"
  "(header_response_v2 w p x @ rest) ! Suc 0 = protocolVersion x"
  by (simp_all add: header_response_v2_def lengths_def be16_def be32_def rd16_def rd32_def
      join16 join32)

lemma valid_fields_lengths:
  assumes "valid_fields w q"
  shows "unat (of_nat (length (ClassName q)) :: 16 word) = length (ClassName q)"
    and "unat (of_nat (length (HeaderMap q)) :: 16 word) = length (HeaderMap q)"
    and "unat (of_nat (length (Content q)) :: 32 word) = length (Content q)"
  using assms by (simp_all add: valid_fields_def spans_fit_def unat_len16 unat_len32)

lemma check_trailer_encoded:
  assumes "length body = n" and "12 \<le> n" and "body ! 1 = v" and "body ! 11 = s"
  shows "check_trailer w (body @ trailer w v s body @ post) n c
         = Decoded c (n + length (trailer w v s body))"
proof (cases "crc_enabled w v s")
  case True
  with assms show ?thesis
    using rd32_at [of body "crc32 w body" post]
    by (simp add: check_trailer_def trailer_def nth_append be32_def)
next
  case False
  with assms show ?thesis
    by (simp add: check_trailer_def trailer_def nth_append)
qed

lemma v1_request_roundtrip:
  assumes inj: "inj (type_code w)" and v: "valid_command w (V1Request q)"
  shows "\<exists>bs. encode_v1 w (V1Request q) = Inr bs
           \<and> decode_v1 w (pre @ bs @ post) (length pre) = Decoded (V1Request q) (length bs)"
proof -
  let ?hdr = "header_request_v1 w q"
  let ?bs = "?hdr @ spans q"
  from v have ty: "CmdType q \<noteq> RESPONSE" and vf: "valid_fields w q"
    by simp_all
  from vf have kc: "known_code w (CmdCode q)"
    and fit: "spans_fit (ClassName q) (HeaderMap q) (Content q)"
    and ok: "\<not> too_long w (length (ClassName q)) (length (HeaderMap q)) (length (Content q))"
    by (simp_all add: valid_fields_def)
  have enc: "encode_v1 w (V1Request q) = Inr ?bs"
    using ty fit by simp
  have len: "length ?hdr = 22" by (rule header_request_v1_reads)
  have "decode_v1 w (pre @ ?bs @ post) (length pre)
        = decode_request_v1 w (CmdType q) (?bs @ post)"
    using inj ty len header_request_v1_reads(3) [of w q]
    by (intro select_request_v1) simp_all
  also have "\<dots> = Decoded (V1Request q) (length ?bs)"
    using kc ok len
    by (simp add: decode_request_v1_def REQUEST_HEADER_LEN_V1_def Let_def
        header_request_v1_reads valid_fields_lengths [OF vf] spans_def)
  finally show ?thesis using enc by simp
qed

lemma v1_response_roundtrip:
  assumes v: "valid_command w (V1Response p)"
  shows "\<exists>bs. encode_v1 w (V1Response p) = Inr bs
           \<and> decode_v1 w (pre @ bs @ post) (length pre) = Decoded (V1Response p) (length bs)"
proof -
  let ?hdr = "header_response_v1 w p"
  let ?bs = "?hdr @ spans p"
  from v have ty: "CmdType p = RESPONSE" and vf: "valid_fields w p"
    by simp_all
  from vf have kc: "known_code w (CmdCode p)"
    and fit: "spans_fit (ClassName p) (HeaderMap p) (Content p)"
    and ok: "\<not> too_long w (length (ClassName p)) (length (HeaderMap p)) (length (Content p))"
    by (simp_all add: valid_fields_def)
  have enc: "encode_v1 w (V1Response p) = Inr ?bs"
    using ty fit by simp
  have len: "length ?hdr = 20" by (rule header_response_v1_reads)
  have "decode_v1 w (pre @ ?bs @ post) (length pre) = decode_response_v1 w (?bs @ post)"
    using ty len header_response_v1_reads(3) [of w p]
    by (intro select_response_v1) simp_all
  also have "\<dots> = Decoded (V1Response p) (length ?bs)"
    using kc ok len ty [symmetric]
    by (simp add: decode_response_v1_def RESPONSE_HEADER_LEN_V1_def Let_def
        header_response_v1_reads valid_fields_lengths [OF vf] spans_def)
  finally show ?thesis using enc by simp
qed


lemma decode_request_v2_body:
  assumes vf: "valid_fields w q"
  shows "decode_request_v2 w t (header_request_v2 w q x @ spans q @ rest)
         = check_trailer w (header_request_v2 w q x @ spans q @ rest)
             (24 + spans_length q) (V2Request (q\<lparr>CmdType := t\<rparr>) x)"
proof -
  from vf have kc: "known_code w (CmdCode q)"
    and ok: "\<not> too_long w (length (ClassName q)) (length (HeaderMap q)) (length (Content q))"
    by (simp_all add: valid_fields_def)
  have len: "length (header_request_v2 w q x) = 24" by (rule header_request_v2_reads)
  have rq: "\<lparr> Protocol = Protocol q, CmdType = t, CmdCode = CmdCode q, Version = Version q,
      ReqId = ReqId q, CodecPro = CodecPro q, ClassName = ClassName q,
      HeaderMap = HeaderMap q, Content = Content q, Timeout = Timeout q \<rparr>
      = q\<lparr>CmdType := t\<rparr>"
    by simp
  have rx: "\<lparr> protocolVersion = protocolVersion x, functionSwitch = functionSwitch x \<rparr> = x"
    by simp
  show ?thesis
    using kc ok len
    by (simp add: rq rx decode_request_v2_def REQUEST_HEADER_LEN_V2_def Let_def
        header_request_v2_reads valid_fields_lengths [OF vf] spans_def spans_length_def
        add.assoc)
qed

lemma decode_response_v2_body:
  assumes vf: "valid_fields w p" and ty: "CmdType p = RESPONSE"
  shows "decode_response_v2 w (header_response_v2 w p x @ spans p @ rest)
         = check_trailer w (header_response_v2 w p x @ spans p @ rest)
             (22 + spans_length p) (V2Response p x)"
proof -
  from vf have kc: "known_code w (CmdCode p)"
    and ok: "\<not> too_long w (length (ClassName p)) (length (HeaderMap p)) (length (Content p))"
    by (simp_all add: valid_fields_def)
  have len: "length (header_response_v2 w p x) = 22" by (rule header_response_v2_reads)
  have rp: "\<lparr> Protocol = Protocol p, CmdType = RESPONSE, CmdCode = CmdCode p,
      Version = Version p, ReqId = ReqId p, CodecPro = CodecPro p, ClassName = ClassName p,
      HeaderMap = HeaderMap p, Content = Content p, ResponseStatus = ResponseStatus p \<rparr>
      = p"
    using ty by simp
  have rx: "\<lparr> protocolVersion = protocolVersion x, functionSwitch = functionSwitch x \<rparr> = x"
    by simp
  show ?thesis
    using kc ok len
    by (simp add: rp rx decode_response_v2_def RESPONSE_HEADER_LEN_V2_def Let_def
        header_response_v2_reads valid_fields_lengths [OF vf] spans_def spans_length_def
        add.assoc)
qed

lemma v2_request_roundtrip:
  assumes inj: "inj (type_code w)" and v: "valid_command w (V2Request q x)"
  shows "\<exists>bs. encode_v2 w (V2Request q x) = Inr bs
           \<and> decode_v2 w (pre @ bs @ post) (length pre) = Decoded (V2Request q x) (length bs)"
proof -
  let ?hdr = "header_request_v2 w q x"
  let ?body = "?hdr @ spans q"
  let ?tr = "trailer w (protocolVersion x) (functionSwitch x) ?body"
  let ?bs = "?body @ ?tr"
  from v have ty: "CmdType q \<noteq> RESPONSE" and vf: "valid_fields w q"
    by simp_all
  from vf have fit: "spans_fit (ClassName q) (HeaderMap q) (Content q)"
    by (simp add: valid_fields_def)
  have enc: "encode_v2 w (V2Request q x) = Inr ?bs"
    using ty fit by (simp add: Let_def)
  have len: "length ?hdr = 24" by (rule header_request_v2_reads)
  have blen: "length ?body = 24 + spans_length q"
    using len by (simp add: length_spans)
  have "decode_v2 w (pre @ ?bs @ post) (length pre)
        = decode_request_v2 w (CmdType q) (?bs @ post)"
    using inj ty len header_request_v2_reads(4) [of w q x]
    by (intro select_request_v2) simp_all
  also have "\<dots> = check_trailer w (?body @ ?tr @ post) (24 + spans_length q) (V2Request q x)"
    using decode_request_v2_body [OF vf, of "CmdType q" x "?tr @ post"] by simp
  also have "\<dots> = Decoded (V2Request q x) (length ?bs)"
    using check_trailer_encoded [OF blen, of "protocolVersion x" "functionSwitch x" w post]
      header_request_v2_reads(3,9) [of w q x "spans q"] blen
    by simp
  finally show ?thesis using enc by simp
qed

lemma v2_response_roundtrip:
  assumes v: "valid_command w (V2Response p x)"
  shows "\<exists>bs. encode_v2 w (V2Response p x) = Inr bs
           \<and> decode_v2 w (pre @ bs @ post) (length pre) = Decoded (V2Response p x) (length bs)"
proof -
  let ?hdr = "header_response_v2 w p x"
  let ?body = "?hdr @ spans p"
  let ?tr = "trailer w (protocolVersion x) (functionSwitch x) ?body"
  let ?bs = "?body @ ?tr"
  from v have ty: "CmdType p = RESPONSE" and vf: "valid_fields w p"
    by simp_all
  from vf have fit: "spans_fit (ClassName p) (HeaderMap p) (Content p)"
    by (simp add: valid_fields_def)
  have enc: "encode_v2 w (V2Response p x) = Inr ?bs"
    using ty fit by (simp add: Let_def)
  have len: "length ?hdr = 22" by (rule header_response_v2_reads)
  have blen: "length ?body = 22 + spans_length p"
    using len by (simp add: length_spans)
  have "decode_v2 w (pre @ ?bs @ post) (length pre) = decode_response_v2 w (?bs @ post)"
    using ty len header_response_v2_reads(4) [of w p x]
    by (intro select_response_v2) simp_all
  also have "\<dots> = check_trailer w (?body @ ?tr @ post) (22 + spans_length p) (V2Response p x)"
    using decode_response_v2_body [OF vf ty, of x "?tr @ post"] by simp
  also have "\<dots> = Decoded (V2Response p x) (length ?bs)"
    using check_trailer_encoded [OF blen, of "protocolVersion x" "functionSwitch x" w post]
      header_response_v2_reads(3,9) [of w p x "spans p"] blen
    by simp
  finally show ?thesis using enc by simp
qed

subsection \<open>Shape and length of what the decoders return\<close>

lemma check_trailer_consumed:
  assumes "check_trailer w bs body c = Decoded c' n"
  shows "c' = c \<and> n = body + (if crc_enabled w (bs ! 1) (bs ! 11) then 4 else 0)"
  using assms by (auto simp: check_trailer_def split: if_splits)

lemma split32:
  "be32 (rd32 bs k) = [bs ! k, bs ! (k + 1), bs ! (k + 2), bs ! (k + 3)]"
proof -
  have "ucast (drop_bit 24 (push_bit 24 (ucast a) OR push_bit 16 (ucast b)
          OR push_bit 8 (ucast c) OR (ucast d :: 32 word))) = a"
    and "ucast (drop_bit 16 (push_bit 24 (ucast a) OR push_bit 16 (ucast b)
          OR push_bit 8 (ucast c) OR (ucast d :: 32 word))) = b"
    and "ucast (drop_bit 8 (push_bit 24 (ucast a) OR push_bit 16 (ucast b)
          OR push_bit 8 (ucast c) OR (ucast d :: 32 word))) = c"
    and "ucast (push_bit 24 (ucast a) OR push_bit 16 (ucast b)
          OR push_bit 8 (ucast c) OR (ucast d :: 32 word)) = d"
    for a b c d :: byte
    by (rule bit_word_eqI; auto simp: bit_simps dest: bit_imp_le_length)+
  then show ?thesis
    by (simp add: be32_def rd32_def)
qed

lemma four_bytes_at:
  assumes "k + 4 \<le> length bs"
  shows "take 4 (drop k bs) = [bs ! k, bs ! (k + 1), bs ! (k + 2), bs ! (k + 3)]"
proof (rule nth_equalityI)
  show "length (take 4 (drop k bs)) = length [bs ! k, bs ! (k + 1), bs ! (k + 2), bs ! (k + 3)]"
    using assms by simp
next
  fix i assume "i < length (take 4 (drop k bs))"
  then have "i < 4" by simp
  then consider "i = 0" | "i = 1" | "i = 2" | "i = 3" by linarith
  then show "take 4 (drop k bs) ! i = [bs ! k, bs ! (k + 1), bs ! (k + 2), bs ! (k + 3)] ! i"
    using assms by cases simp_all
qed

lemma check_trailer_checked:
  assumes "check_trailer w bs body c = Decoded c' n"
  shows "c' = c
       \<and> (if crc_enabled w (bs ! 1) (bs ! 11)
          then n = body + 4 \<and> body + 4 \<le> length bs
               \<and> take 4 (drop body bs) = be32 (crc32 w (take body bs))
          else n = body)"
proof (cases "crc_enabled w (bs ! 1) (bs ! 11)")
  case True
  with assms have c: "c' = c" and n: "n = body + 4" and l: "body + 4 \<le> length bs"
    and r: "rd32 bs body = crc32 w (take body bs)"
    by (auto simp: check_trailer_def split: if_splits)
  from four_bytes_at [OF l] split32 [of bs body] r
  have "take 4 (drop body bs) = be32 (crc32 w (take body bs))" by simp
  with True c n l show ?thesis by simp
next
  case False
  with assms show ?thesis by (auto simp: check_trailer_def split: if_splits)
qed

lemma decode_request_v2_checked:
  assumes "decode_request_v2 w t bs = Decoded c n"
  shows "\<exists>q x. c = V2Request q x \<and> n \<le> length bs
           \<and> (if crc_enabled w (protocolVersion x) (functionSwitch x)
              then n = 24 + spans_length q + 4
                   \<and> take 4 (drop (24 + spans_length q) bs)
                     = be32 (crc32 w (take (24 + spans_length q) bs))
              else n = 24 + spans_length q)"
proof -
  let ?cl = "unat (rd16 bs 16)" and ?hl = "unat (rd16 bs 18)" and ?ctl = "unat (rd32 bs 20)"
  from assms have len: "24 + ?cl + ?hl + ?ctl \<le> length bs"
    by (simp add: decode_request_v2_def REQUEST_HEADER_LEN_V2_def Let_def split: if_splits)
  from assms obtain q x where
    ct: "check_trailer w bs (24 + ?cl + ?hl + ?ctl) (V2Request q x) = Decoded c n"
    and q: "ClassName q = take ?cl (drop 24 bs)"
      "HeaderMap q = take ?hl (drop (24 + ?cl) bs)"
      "Content q = take ?ctl (drop (24 + ?cl + ?hl) bs)"
    and x: "protocolVersion x = bs ! 1" "functionSwitch x = bs ! 11"
    by (simp add: decode_request_v2_def REQUEST_HEADER_LEN_V2_def Let_def split: if_splits)
  from q len have s: "spans_length q = ?cl + ?hl + ?ctl"
    by (simp add: spans_length_def)
  from check_trailer_checked [OF ct] x s len show ?thesis
    by (auto simp: add.assoc split: if_splits)
qed

lemma decode_response_v2_checked:
  assumes "decode_response_v2 w bs = Decoded c n"
  shows "\<exists>p x. c = V2Response p x \<and> n \<le> length bs
           \<and> (if crc_enabled w (protocolVersion x) (functionSwitch x)
              then n = 22 + spans_length p + 4
                   \<and> take 4 (drop (22 + spans_length p) bs)
                     = be32 (crc32 w (take (22 + spans_length p) bs))
              else n = 22 + spans_length p)"
proof -
  let ?cl = "unat (rd16 bs 14)" and ?hl = "unat (rd16 bs 16)" and ?ctl = "unat (rd32 bs 18)"
  from assms have len: "22 + ?cl + ?hl + ?ctl \<le> length bs"
    by (simp add: decode_response_v2_def RESPONSE_HEADER_LEN_V2_def Let_def split: if_splits)
  from assms obtain p x where
    ct: "check_trailer w bs (22 + ?cl + ?hl + ?ctl) (V2Response p x) = Decoded c n"
    and p: "ClassName p = take ?cl (drop 22 bs)"
      "HeaderMap p = take ?hl (drop (22 + ?cl) bs)"
      "Content p = take ?ctl (drop (22 + ?cl + ?hl) bs)"
    and x: "protocolVersion x = bs ! 1" "functionSwitch x = bs ! 11"
    by (simp add: decode_response_v2_def RESPONSE_HEADER_LEN_V2_def Let_def split: if_splits)
  from p len have s: "spans_length p = ?cl + ?hl + ?ctl"
    by (simp add: spans_length_def)
  from check_trailer_checked [OF ct] x s len show ?thesis
    by (auto simp: add.assoc split: if_splits)
qed

lemma decode_v2_checked:
  assumes "decode_v2 w buf off = Decoded c n"
  shows "\<exists>x. v2_only c = Some x \<and> off + n \<le> length buf
           \<and> (if crc_enabled w (protocolVersion x) (functionSwitch x)
              then n = body_length c + 4
                   \<and> take 4 (drop (off + body_length c) buf)
                     = be32 (crc32 w (take (body_length c) (drop off buf)))
              else n = body_length c)"
proof -
  let ?bs = "drop off buf"
  from assms have l3: "3 \<le> length ?bs"
    by (auto simp: decode_v2_def Let_def split: if_splits)
  have fit: "off + n \<le> length buf" if "n \<le> length ?bs" for n
    using that l3 by simp
  have dd: "drop (off + k) buf = drop k ?bs" for k
    by (simp add: add.commute)
  from assms consider t where "decode_request_v2 w t ?bs = Decoded c n"
    | "decode_response_v2 w ?bs = Decoded c n"
    by (auto simp: decode_v2_def Let_def split: if_splits)
  then show ?thesis
  proof cases
    case 1
    from decode_request_v2_checked [OF 1] obtain q x where c: "c = V2Request q x"
      and n: "n \<le> length ?bs"
      and t: "if crc_enabled w (protocolVersion x) (functionSwitch x)
              then n = 24 + spans_length q + 4
                   \<and> take 4 (drop (24 + spans_length q) ?bs)
                     = be32 (crc32 w (take (24 + spans_length q) ?bs))
              else n = 24 + spans_length q"
      by blast
    from c have b: "body_length c = 24 + spans_length q"
      by (simp add: REQUEST_HEADER_LEN_V2_def)
    from c fit [OF n] t show ?thesis
      unfolding b dd by (cases "crc_enabled w (protocolVersion x) (functionSwitch x)") simp_all
  next
    case 2
    from decode_response_v2_checked [OF 2] obtain p x where c: "c = V2Response p x"
      and n: "n \<le> length ?bs"
      and t: "if crc_enabled w (protocolVersion x) (functionSwitch x)
              then n = 22 + spans_length p + 4
                   \<and> take 4 (drop (22 + spans_length p) ?bs)
                     = be32 (crc32 w (take (22 + spans_length p) ?bs))
              else n = 22 + spans_length p"
      by blast
    from c have b: "body_length c = 22 + spans_length p"
      by (simp add: RESPONSE_HEADER_LEN_V2_def)
    from c fit [OF n] t show ?thesis
      unfolding b dd by (cases "crc_enabled w (protocolVersion x) (functionSwitch x)") simp_all
  qed
qed

lemma length_trailer:
  "length (trailer w v s body) = (if crc_enabled w v s then 4 else 0)"
  by (simp add: trailer_def be32_def)

lemma encode_v2_layout:
  assumes "encode_v2 w c = Inr bs"
  shows "\<exists>x body. v2_only c = Some x \<and> length body = body_length c
           \<and> bs = body @ trailer w (protocolVersion x) (functionSwitch x) body"
proof (cases c)
  case (V2Request q x)
  let ?body = "header_request_v2 w q x @ spans q"
  have "length ?body = body_length c"
    by (simp add: V2Request header_request_v2_reads length_spans REQUEST_HEADER_LEN_V2_def)
  moreover from assms V2Request
  have "bs = ?body @ trailer w (protocolVersion x) (functionSwitch x) ?body"
    by (simp add: Let_def split: if_splits)
  moreover have "v2_only c = Some x" by (simp add: V2Request)
  ultimately show ?thesis by blast
next
  case (V2Response p x)
  let ?body = "header_response_v2 w p x @ spans p"
  have "length ?body = body_length c"
    by (simp add: V2Response header_response_v2_reads length_spans RESPONSE_HEADER_LEN_V2_def)
  moreover from assms V2Response
  have "bs = ?body @ trailer w (protocolVersion x) (functionSwitch x) ?body"
    by (simp add: Let_def split: if_splits)
  moreover have "v2_only c = Some x" by (simp add: V2Response)
  ultimately show ?thesis by blast
qed (use assms in simp_all)

lemma decode_request_v1_shape:
  "decode_request_v1 w t bs = Decoded c n \<Longrightarrow> \<exists>q. c = V1Request q \<and> CmdType q = t"
  by (simp add: decode_request_v1_def Let_def split: if_splits) auto

lemma decode_response_v1_shape:
  "decode_response_v1 w bs = Decoded c n \<Longrightarrow> \<exists>p. c = V1Response p \<and> CmdType p = RESPONSE"
  by (simp add: decode_response_v1_def Let_def split: if_splits) auto

lemma decode_request_v2_shape:
  assumes "decode_request_v2 w t bs = Decoded c n"
  shows "\<exists>q x. c = V2Request q x \<and> CmdType q = t"
proof -
  from assms obtain q x where "check_trailer w bs
      (nat REQUEST_HEADER_LEN_V2 + unat (rd16 bs 16) + unat (rd16 bs 18) + unat (rd32 bs 20))
      (V2Request q x) = Decoded c n" and "CmdType q = t"
    by (simp add: decode_request_v2_def Let_def split: if_splits)
  with check_trailer_consumed show ?thesis by blast
qed

lemma decode_response_v2_shape:
  assumes "decode_response_v2 w bs = Decoded c n"
  shows "\<exists>p x. c = V2Response p x \<and> CmdType p = RESPONSE"
proof -
  from assms obtain p x where "check_trailer w bs
      (nat RESPONSE_HEADER_LEN_V2 + unat (rd16 bs 14) + unat (rd16 bs 16) + unat (rd32 bs 18))
      (V2Response p x) = Decoded c n" and "CmdType p = RESPONSE"
    by (simp add: decode_response_v2_def Let_def split: if_splits)
  with check_trailer_consumed show ?thesis by blast
qed

lemma decoded_shape:
  assumes "decode_v1 w buf off = Decoded c n \<or> decode_v2 w buf off = Decoded c n"
  shows "(command_type c = RESPONSE \<longrightarrow> carried_timeout c = None)
       \<and> (command_type c \<noteq> RESPONSE \<longrightarrow> carried_status c = None)"
proof -
  let ?bs = "drop off buf"
  from assms consider
      "decode_response_v1 w ?bs = Decoded c n"
    | "decode_request_v1 w REQUEST ?bs = Decoded c n"
    | "decode_request_v1 w REQUEST_ONEWAY ?bs = Decoded c n"
    | "decode_response_v2 w ?bs = Decoded c n"
    | "decode_request_v2 w REQUEST ?bs = Decoded c n"
    | "decode_request_v2 w REQUEST_ONEWAY ?bs = Decoded c n"
    by (auto simp: decode_v1_def decode_v2_def Let_def split: if_splits)
  then show ?thesis
  proof cases
    case 1 from decode_response_v1_shape [OF 1] show ?thesis by auto
  next
    case 2 from decode_request_v1_shape [OF 2] show ?thesis by auto
  next
    case 3 from decode_request_v1_shape [OF 3] show ?thesis by auto
  next
    case 4 from decode_response_v2_shape [OF 4] show ?thesis by auto
  next
    case 5 from decode_request_v2_shape [OF 5] show ?thesis by auto
  next
    case 6 from decode_request_v2_shape [OF 6] show ?thesis by auto
  qed
qed

subsection \<open>The CRC32 trailer\<close>

lemma example_inj: "inj (type_code example_wire)"
proof (rule injI)
  fix a b assume "type_code example_wire a = type_code example_wire b"
  then show "a = b" by (cases a; cases b) (simp_all add: example_wire_def)
qed

lemma be32_minus_one: "be32 (- 1) = [255, 255, 255, 255]"
  by code_simp

lemma example_heartbeat_bytes:
  "encode example_wire [(PROTOCOL_CODE_V1, BoltV1), (PROTOCOL_CODE_V2, BoltV2)]
     (V1Request (NewBoltHeartbeat example_sofarpc 42))
   = Inr [1, 1, 0, 0, 1, 0, 0, 0, 42, 1, 255, 255, 255, 255, 0, 0, 0, 0, 0, 0, 0, 0]"
proof -
  have "header_request_v1 example_wire (NewBoltHeartbeat example_sofarpc 42)
        = [1, 1, 0, 0, 1, 0, 0, 0, 42, 1] @ be32 (- 1) @ [0, 0, 0, 0, 0, 0, 0, 0]"
    by (simp add: NewBoltHeartbeat_def example_sofarpc_def example_wire_def
        header_request_v1_def lengths_def be16_def be32_def PROTOCOL_CODE_V1_def
        del: One_nat_def)
  then show ?thesis
    by (simp add: encode_def lookup_def GetEncoder_def BoltV1_def spans_def spans_fit_def
        be32_minus_one PROTOCOL_CODE_V1_def PROTOCOL_CODE_V2_def NewBoltHeartbeat_def)
qed

lemma example_crc_bytes:
  "encode_v2 example_wire example_crc_request
   = Inr [2, 2, 1, 0, 1, 1, 0, 0, 0, 7, 1, 1, 0, 0, 0, 100, 0, 1, 0, 0, 0, 0, 0, 2,
          97, 1, 2, 0, 0, 0, 219]"
  by (simp add: example_crc_request_def example_wire_def header_request_v2_def lengths_def
      spans_def spans_fit_def be16_def be32_def trailer_def crc_enabled_def Let_def)

lemma example_plain_bytes:
  "encode_v2 example_wire example_plain_request
   = Inr [2, 2, 1, 0, 1, 1, 0, 0, 0, 7, 1, 0, 0, 0, 0, 100, 0, 1, 0, 0, 0, 0, 0, 2,
          97, 1, 2]"
  by (simp add: example_plain_request_def example_wire_def header_request_v2_def lengths_def
      spans_def spans_fit_def be16_def be32_def trailer_def crc_enabled_def Let_def)

text \<open>
  C4. A V2 frame carries the CRC32 trailer if and only if its \<open>ver1\<close> is greater
  than 1 and the CRC bit of its function switch is set. The frame that the V2 encoder
  writes for a command is the fixed header and the spans, followed by the four bytes of
  the CRC32 of all of them when both conditions hold, and by nothing otherwise; so a frame
  with \<open>ver1\<close> greater than 1 and the switch bit clear has no trailer. The V2 decoder
  agrees: whenever it decodes a command, the bytes it reports as consumed are in the
  buffer; when both conditions hold they are header, spans and four more bytes, and those
  four bytes are the CRC32 of the header and spans before them; otherwise they are header
  and spans alone.
\<close>

theorem crc_trailer_iff:
  "(encode_v2 w c = Inr bs \<longrightarrow>
      (\<exists>x. v2_only c = Some x
         \<and> (if 1 < protocolVersion x \<and> bit (functionSwitch x) (crc_bit w)
            then length bs = body_length c + 4
                 \<and> drop (body_length c) bs = be32 (crc32 w (take (body_length c) bs))
            else length bs = body_length c)))
   \<and> (decode_v2 w buf off = Decoded c n \<longrightarrow>
      (\<exists>x. v2_only c = Some x
         \<and> off + n \<le> length buf
         \<and> (if 1 < protocolVersion x \<and> bit (functionSwitch x) (crc_bit w)
            then n = body_length c + 4
                 \<and> take 4 (drop (off + body_length c) buf)
                   = be32 (crc32 w (take (body_length c) (drop off buf)))
            else n = body_length c)))"
proof (intro conjI impI)
  assume "encode_v2 w c = Inr bs"
  from encode_v2_layout [OF this] obtain x body where
    x: "v2_only c = Some x" and b: "length body = body_length c"
    and bs: "bs = body @ trailer w (protocolVersion x) (functionSwitch x) body"
    by blast
  show "\<exists>x. v2_only c = Some x
         \<and> (if 1 < protocolVersion x \<and> bit (functionSwitch x) (crc_bit w)
            then length bs = body_length c + 4
                 \<and> drop (body_length c) bs = be32 (crc32 w (take (body_length c) bs))
            else length bs = body_length c)"
    using x b [symmetric] bs
    by (simp add: trailer_def crc_enabled_def be32_def)
next
  assume "decode_v2 w buf off = Decoded c n"
  from decode_v2_checked [OF this] show "\<exists>x. v2_only c = Some x
         \<and> off + n \<le> length buf
         \<and> (if 1 < protocolVersion x \<and> bit (functionSwitch x) (crc_bit w)
            then n = body_length c + 4
                 \<and> take 4 (drop (off + body_length c) buf)
                   = be32 (crc32 w (take (body_length c) (drop off buf)))
            else n = body_length c)"
    by (simp add: crc_enabled_def)
qed

lemma example_no_trailer_incomplete:
  "decode_v2 example_wire
     [2, 2, 1, 0, 1, 1, 0, 0, 0, 7, 1, 1, 0, 0, 0, 100, 0, 1, 0, 0, 0, 0, 0, 2, 97, 1, 2] 0
   = Incomplete"
proof -
  let ?bs = "[2, 2, 1, 0, 1, 1, 0, 0, 0, 7, 1, 1, 0, 0, 0, 100, 0, 1, 0, 0, 0, 0, 0, 2, 97, 1, 2] :: byte list"
  have r: "rd16 ?bs 3 = 1" "unat (rd16 ?bs 16) = 1" "unat (rd16 ?bs 18) = 0"
    "unat (rd32 ?bs 20) = 2"
    by code_simp+
  show ?thesis
    by (simp add: decode_v2_def decode_request_v2_def Let_def r example_wire_def
        REQUEST_HEADER_LEN_V2_def too_long_def check_trailer_def crc_enabled_def)
qed

lemma example_bad_crc_malformed:
  "decode_v2 example_wire
     [2, 2, 1, 0, 1, 1, 0, 0, 0, 7, 1, 1, 0, 0, 0, 100, 0, 1, 0, 0, 0, 0, 0, 2, 97, 1, 2,
      0, 0, 0, 218] 0
   = Malformed"
proof -
  let ?bs = "[2, 2, 1, 0, 1, 1, 0, 0, 0, 7, 1, 1, 0, 0, 0, 100, 0, 1, 0, 0, 0, 0, 0, 2,
              97, 1, 2, 0, 0, 0, 218] :: byte list"
  have r: "rd16 ?bs 3 = 1" "unat (rd16 ?bs 16) = 1" "unat (rd16 ?bs 18) = 0"
    "unat (rd32 ?bs 20) = 2" "rd32 ?bs 27 = 218"
    "sum_list (map ucast (take 27 ?bs)) = (219 :: 32 word)"
    by code_simp+
  show ?thesis
    by (simp add: decode_v2_def decode_request_v2_def Let_def r example_wire_def
        REQUEST_HEADER_LEN_V2_def too_long_def check_trailer_def crc_enabled_def)
qed

theorem crc_trailer_iff_witness:
  "encode_v2 example_wire example_crc_request
     = Inr [2, 2, 1, 0, 1, 1, 0, 0, 0, 7, 1, 1, 0, 0, 0, 100, 0, 1, 0, 0, 0, 0, 0, 2,
            97, 1, 2, 0, 0, 0, 219]
   \<and> body_length example_crc_request = 27
   \<and> encode_v2 example_wire example_plain_request
     = Inr [2, 2, 1, 0, 1, 1, 0, 0, 0, 7, 1, 0, 0, 0, 0, 100, 0, 1, 0, 0, 0, 0, 0, 2,
            97, 1, 2]
   \<and> body_length example_plain_request = 27
   \<and> decode_v2 example_wire
        [2, 2, 1, 0, 1, 1, 0, 0, 0, 7, 1, 1, 0, 0, 0, 100, 0, 1, 0, 0, 0, 0, 0, 2,
         97, 1, 2, 0, 0, 0, 219] 0 = Decoded example_crc_request 31
   \<and> decode_v2 example_wire
        [2, 2, 1, 0, 1, 1, 0, 0, 0, 7, 1, 1, 0, 0, 0, 100, 0, 1, 0, 0, 0, 0, 0, 2,
         97, 1, 2] 0 = Incomplete
   \<and> decode_v2 example_wire
        [2, 2, 1, 0, 1, 1, 0, 0, 0, 7, 1, 1, 0, 0, 0, 100, 0, 1, 0, 0, 0, 0, 0, 2,
         97, 1, 2, 0, 0, 0, 218] 0 = Malformed"
proof -
  have v: "valid_command example_wire
     (V2Request \<lparr> Protocol = 2, CmdType = REQUEST, CmdCode = 1, Version = 1, ReqId = 7,
                 CodecPro = 1, ClassName = [97], HeaderMap = [], Content = [1, 2],
                 Timeout = 100 \<rparr>
               \<lparr> protocolVersion = 2, functionSwitch = 1 \<rparr>)"
    by (simp add: example_wire_def valid_fields_def spans_fit_def too_long_def
        PROTOCOL_CODE_V2_def)
  from v2_request_roundtrip [OF example_inj v, of "[]" "[]"] example_crc_bytes
  have d: "decode_v2 example_wire
        [2, 2, 1, 0, 1, 1, 0, 0, 0, 7, 1, 1, 0, 0, 0, 100, 0, 1, 0, 0, 0, 0, 0, 2,
         97, 1, 2, 0, 0, 0, 219] 0 = Decoded example_crc_request 31"
    by (auto simp: example_crc_request_def)
  have b: "body_length example_crc_request = 27" "body_length example_plain_request = 27"
    by (simp_all add: example_crc_request_def example_plain_request_def spans_length_def
        REQUEST_HEADER_LEN_V2_def)
  from crc_trailer_iff [of example_wire example_crc_request _ _ 0 31]
       crc_trailer_iff [of example_wire example_plain_request]
       example_crc_bytes example_plain_bytes d b
       example_no_trailer_incomplete example_bad_crc_malformed
  show ?thesis by simp
qed

subsection \<open>The codec type on the wire\<close>

lemma encode_v1_codec_byte:
  assumes "encode_v1 w c = Inr bs"
  shows "bs ! 9 = codec_type c"
proof (cases c)
  case (V1Request q)
  with assms have "bs = header_request_v1 w q @ spans q" by (simp split: if_splits)
  with V1Request header_request_v1_reads(7) [of w q "spans q"] show ?thesis by simp
next
  case (V1Response p)
  with assms have "bs = header_response_v1 w p @ spans p" by (simp split: if_splits)
  with V1Response header_response_v1_reads(7) [of w p "spans p"] show ?thesis by simp
qed (use assms in simp_all)

lemma encode_v2_codec_byte:
  assumes "encode_v2 w c = Inr bs"
  shows "bs ! 10 = codec_type c"
proof (cases c)
  case (V2Request q x)
  with assms have "bs = header_request_v2 w q x @ spans q
      @ trailer w (protocolVersion x) (functionSwitch x) (header_request_v2 w q x @ spans q)"
    by (simp add: Let_def split: if_splits)
  with V2Request header_request_v2_reads(8) [of w q x] show ?thesis by simp
next
  case (V2Response p x)
  with assms have "bs = header_response_v2 w p x @ spans p
      @ trailer w (protocolVersion x) (functionSwitch x) (header_response_v2 w p x @ spans p)"
    by (simp add: Let_def split: if_splits)
  with V2Response header_response_v2_reads(8) [of w p x] show ?thesis by simp
qed (use assms in simp_all)

lemma decode_v1_codec_byte:
  assumes "decode_v1 w buf off = Decoded c n"
  shows "codec_type c = buf ! (off + 9)"
proof -
  let ?bs = "drop off buf"
  from assms have l2: "2 \<le> length ?bs"
    by (auto simp: decode_v1_def Let_def split: if_splits)
  from assms consider t where "decode_request_v1 w t ?bs = Decoded c n"
    | "decode_response_v1 w ?bs = Decoded c n"
    by (auto simp: decode_v1_def Let_def split: if_splits)
  then have "codec_type c = ?bs ! 9"
  proof cases
    case 1
    then show ?thesis
      by (simp add: decode_request_v1_def REQUEST_HEADER_LEN_V1_def Let_def split: if_splits)
        auto
  next
    case 2
    then show ?thesis
      by (simp add: decode_response_v1_def RESPONSE_HEADER_LEN_V1_def Let_def split: if_splits)
        auto
  qed
  with l2 show ?thesis by simp
qed

lemma decode_v2_codec_byte:
  assumes "decode_v2 w buf off = Decoded c n"
  shows "codec_type c = buf ! (off + 10)"
proof -
  let ?bs = "drop off buf"
  from assms have l3: "3 \<le> length ?bs"
    by (auto simp: decode_v2_def Let_def split: if_splits)
  from assms consider t where "decode_request_v2 w t ?bs = Decoded c n"
    | "decode_response_v2 w ?bs = Decoded c n"
    by (auto simp: decode_v2_def Let_def split: if_splits)
  then have "codec_type c = ?bs ! 10"
  proof cases
    case 1
    then obtain q x b where "check_trailer w ?bs b (V2Request q x) = Decoded c n"
      and "CodecPro q = ?bs ! 10"
      by (simp add: decode_request_v2_def Let_def split: if_splits)
    with check_trailer_consumed show ?thesis by fastforce
  next
    case 2
    then obtain p x b where "check_trailer w ?bs b (V2Response p x) = Decoded c n"
      and "CodecPro p = ?bs ! 10"
      by (simp add: decode_response_v2_def Let_def split: if_splits)
    with check_trailer_consumed show ?thesis by fastforce
  qed
  with l3 show ?thesis by simp
qed

text \<open>
  C6, as amended. The codec type is an opaque pass-through value in the frame codecs: an
  encoder writes the codec type of the command unchanged, at offset 9 of a V1 frame and
  at offset 10 of a V2 frame, and a decoder returns as the codec type of the command the
  byte it finds there. The heartbeat constructors, which are given a request id only,
  attach to every heartbeat the same codec type, whatever the request id.
\<close>

theorem codec_type_pass_through:
  "(encode_v1 w c = Inr bs \<longrightarrow> bs ! 9 = codec_type c)
   \<and> (encode_v2 w c = Inr bs \<longrightarrow> bs ! 10 = codec_type c)
   \<and> (decode_v1 w buf off = Decoded c n \<longrightarrow> codec_type c = buf ! (off + 9))
   \<and> (decode_v2 w buf off = Decoded c n \<longrightarrow> codec_type c = buf ! (off + 10))
   \<and> CodecPro (NewBoltHeartbeat k r) = CodecPro (NewBoltHeartbeat k r')
   \<and> CodecPro (NewBoltHeartbeatAck k r) = CodecPro (NewBoltHeartbeatAck k r')"
  using encode_v1_codec_byte [of w c bs] encode_v2_codec_byte [of w c bs]
    decode_v1_codec_byte [of w buf off c n] decode_v2_codec_byte [of w buf off c n]
  by (simp add: NewBoltHeartbeat_def NewBoltHeartbeatAck_def)

lemma example_heartbeat_v1_bytes:
  "encode_v1 example_wire (V1Request (NewBoltHeartbeat example_sofarpc 42))
   = Inr [1, 1, 0, 0, 1, 0, 0, 0, 42, 1, 255, 255, 255, 255, 0, 0, 0, 0, 0, 0, 0, 0]"
  using example_heartbeat_bytes
  by (simp add: encode_def lookup_def GetEncoder_def BoltV1_def NewBoltHeartbeat_def
      PROTOCOL_CODE_V1_def PROTOCOL_CODE_V2_def)

theorem codec_type_pass_through_witness:
  "encode_v1 example_wire (V1Request (NewBoltHeartbeat example_sofarpc 42))
     = Inr [1, 1, 0, 0, 1, 0, 0, 0, 42, 1, 255, 255, 255, 255, 0, 0, 0, 0, 0, 0, 0, 0]
   \<and> decode_v1 example_wire
        [1, 1, 0, 0, 1, 0, 0, 0, 42, 1, 255, 255, 255, 255, 0, 0, 0, 0, 0, 0, 0, 0] 0
      = Decoded (V1Request (NewBoltHeartbeat example_sofarpc 42)) 22
   \<and> codec_type (V1Request (NewBoltHeartbeat example_sofarpc 42)) = 1
   \<and> encode_v2 example_wire example_crc_request
     = Inr [2, 2, 1, 0, 1, 1, 0, 0, 0, 7, 1, 1, 0, 0, 0, 100, 0, 1, 0, 0, 0, 0, 0, 2,
            97, 1, 2, 0, 0, 0, 219]
   \<and> decode_v2 example_wire
        [2, 2, 1, 0, 1, 1, 0, 0, 0, 7, 1, 1, 0, 0, 0, 100, 0, 1, 0, 0, 0, 0, 0, 2,
         97, 1, 2, 0, 0, 0, 219] 0 = Decoded example_crc_request 31
   \<and> codec_type example_crc_request = 1"
proof -
  have v1: "valid_command example_wire (V1Request (NewBoltHeartbeat example_sofarpc 42))"
    by (simp add: NewBoltHeartbeat_def example_sofarpc_def example_wire_def valid_fields_def
        spans_fit_def too_long_def)
  from v1_request_roundtrip [OF example_inj v1, of "[]" "[]"] example_heartbeat_v1_bytes
  have d1: "decode_v1 example_wire
        [1, 1, 0, 0, 1, 0, 0, 0, 42, 1, 255, 255, 255, 255, 0, 0, 0, 0, 0, 0, 0, 0] 0
      = Decoded (V1Request (NewBoltHeartbeat example_sofarpc 42)) 22"
    by auto
  have v2: "valid_command example_wire
     (V2Request \<lparr> Protocol = 2, CmdType = REQUEST, CmdCode = 1, Version = 1, ReqId = 7,
                 CodecPro = 1, ClassName = [97], HeaderMap = [], Content = [1, 2],
                 Timeout = 100 \<rparr>
               \<lparr> protocolVersion = 2, functionSwitch = 1 \<rparr>)"
    by (simp add: example_wire_def valid_fields_def spans_fit_def too_long_def
        PROTOCOL_CODE_V2_def)
  from v2_request_roundtrip [OF example_inj v2, of "[]" "[]"] example_crc_bytes
  have d2: "decode_v2 example_wire
        [2, 2, 1, 0, 1, 1, 0, 0, 0, 7, 1, 1, 0, 0, 0, 100, 0, 1, 0, 0, 0, 0, 0, 2,
         97, 1, 2, 0, 0, 0, 219] 0 = Decoded example_crc_request 31"
    by (auto simp: example_crc_request_def)
  from codec_type_pass_through [of example_wire
         "V1Request (NewBoltHeartbeat example_sofarpc 42)" _ _ 0 22]
       codec_type_pass_through [of example_wire example_crc_request _ _ 0 31]
       example_heartbeat_v1_bytes d1 example_crc_bytes d2
  show ?thesis by simp
qed

subsection \<open>Round trip\<close>

lemma registered_codecs:
  "lookup PROTOCOL_CODE_V1 [(PROTOCOL_CODE_V1, BoltV1), (PROTOCOL_CODE_V2, BoltV2)] = Inr BoltV1"
  "lookup PROTOCOL_CODE_V2 [(PROTOCOL_CODE_V1, BoltV1), (PROTOCOL_CODE_V2, BoltV2)] = Inr BoltV2"
  "fst (GetEncoder BoltV1) = boltV1Codec" "fst (GetDecoder BoltV1) = boltV1Codec"
  "fst (GetEncoder BoltV2) = boltV2Codec" "fst (GetDecoder BoltV2) = boltV2Codec"
  by (simp_all add: lookup_def PROTOCOL_CODE_V1_def PROTOCOL_CODE_V2_def GetEncoder_def
      GetDecoder_def BoltV1_def BoltV2_def)

lemma first_byte: "bs \<noteq> [] \<Longrightarrow> (pre @ bs @ post) ! length pre = hd bs"
  by (cases bs) simp_all

lemma decode_dispatch:
  assumes "bs \<noteq> []"
  shows "decode w reg (pre @ bs @ post) (length pre)
         = (case lookup (hd bs) reg of
              Inl e \<Rightarrow> Inl e
            | Inr d \<Rightarrow> Inr (run_decoder w (fst (GetDecoder d)) (pre @ bs @ post) (length pre)))"
  using assms first_byte [OF assms, of pre post] by (simp add: decode_def)

lemma encoded_first_byte:
  "encode_v1 w c = Inr bs \<Longrightarrow> bs \<noteq> [] \<and> hd bs = protocol_code c"
  "encode_v2 w c = Inr bs \<Longrightarrow> bs \<noteq> [] \<and> hd bs = protocol_code c"
  by (cases c; auto simp: header_request_v1_def header_response_v1_def
      header_request_v2_def header_response_v2_def Let_def split: if_splits)+

text \<open>
  C8. With the registry as the package initialisation leaves it, and the three command
  types given distinct wire values, every valid command of either wire version and
  either direction is encoded without error, and decoding the bytes yields the command
  itself, field for field, and consumes exactly those bytes; the same holds when the
  frame stands at an offset in a buffer, with bytes of other frames before and after it.
\<close>

theorem codec_roundtrip:
  assumes inj: "inj (type_code w)" and reg: "init [] = Inr reg" and v: "valid_command w c"
  shows "\<exists>bs. encode w reg c = Inr bs
           \<and> decode w reg bs 0 = Inr (Decoded c (length bs))
           \<and> decode w reg (pre @ bs @ post) (length pre) = Inr (Decoded c (length bs))"
proof -
  from reg init_empty have r: "reg = [(PROTOCOL_CODE_V1, BoltV1), (PROTOCOL_CODE_V2, BoltV2)]"
    by simp
  have v1: "protocol_code c = PROTOCOL_CODE_V1 \<Longrightarrow> encode w reg c = encode_v1 w c"
    and v2: "protocol_code c = PROTOCOL_CODE_V2 \<Longrightarrow> encode w reg c = encode_v2 w c"
    by (simp_all add: encode_def r registered_codecs)
  have d1: "decode w reg (a @ bs @ b) (length a) = Inr (decode_v1 w (a @ bs @ b) (length a))"
    if "bs \<noteq> []" "hd bs = PROTOCOL_CODE_V1" for a bs b
    using that by (simp add: decode_dispatch r registered_codecs)
  have d2: "decode w reg (a @ bs @ b) (length a) = Inr (decode_v2 w (a @ bs @ b) (length a))"
    if "bs \<noteq> []" "hd bs = PROTOCOL_CODE_V2" for a bs b
    using that by (simp add: decode_dispatch r registered_codecs)
  have per_codec: "\<exists>bs. encode w reg c = Inr bs
      \<and> decode w reg (a @ bs @ b) (length a) = Inr (Decoded c (length bs))" for a b
  proof (cases c)
    case (V1Request q)
    with v have pc: "protocol_code c = PROTOCOL_CODE_V1" by simp
    from v1_request_roundtrip [OF inj v [unfolded V1Request], of a b] obtain bs
      where e: "encode_v1 w c = Inr bs"
        and d: "decode_v1 w (a @ bs @ b) (length a) = Decoded c (length bs)"
      unfolding V1Request by blast
    from encoded_first_byte(1) [OF e] pc d1 [of bs a b] d v1 [OF pc] e show ?thesis by simp
  next
    case (V1Response p)
    with v have pc: "protocol_code c = PROTOCOL_CODE_V1" by simp
    from v1_response_roundtrip [OF v [unfolded V1Response], of a b] obtain bs
      where e: "encode_v1 w c = Inr bs"
        and d: "decode_v1 w (a @ bs @ b) (length a) = Decoded c (length bs)"
      unfolding V1Response by blast
    from encoded_first_byte(1) [OF e] pc d1 [of bs a b] d v1 [OF pc] e show ?thesis by simp
  next
    case (V2Request q x)
    with v have pc: "protocol_code c = PROTOCOL_CODE_V2" by simp
    from v2_request_roundtrip [OF inj v [unfolded V2Request], of a b] obtain bs
      where e: "encode_v2 w c = Inr bs"
        and d: "decode_v2 w (a @ bs @ b) (length a) = Decoded c (length bs)"
      unfolding V2Request by blast
    from encoded_first_byte(2) [OF e] pc d2 [of bs a b] d v2 [OF pc] e show ?thesis by simp
  next
    case (V2Response p x)
    with v have pc: "protocol_code c = PROTOCOL_CODE_V2" by simp
    from v2_response_roundtrip [OF v [unfolded V2Response], of a b] obtain bs
      where e: "encode_v2 w c = Inr bs"
        and d: "decode_v2 w (a @ bs @ b) (length a) = Decoded c (length bs)"
      unfolding V2Response by blast
    from encoded_first_byte(2) [OF e] pc d2 [of bs a b] d v2 [OF pc] e show ?thesis by simp
  qed
  from per_codec [of "[]" "[]"] per_codec [of pre post] show ?thesis
    by auto
qed

theorem codec_roundtrip_witness:
  "inj (type_code example_wire)
   \<and> init [] = Inr [(PROTOCOL_CODE_V1, BoltV1), (PROTOCOL_CODE_V2, BoltV2)]
   \<and> valid_command example_wire (V1Request (NewBoltHeartbeat example_sofarpc 42))
   \<and> decode example_wire [(PROTOCOL_CODE_V1, BoltV1), (PROTOCOL_CODE_V2, BoltV2)]
        [1, 1, 0, 0, 1, 0, 0, 0, 42, 1, 255, 255, 255, 255, 0, 0, 0, 0, 0, 0, 0, 0] 0
      = Inr (Decoded (V1Request (NewBoltHeartbeat example_sofarpc 42)) 22)"
proof -
  have v: "valid_command example_wire (V1Request (NewBoltHeartbeat example_sofarpc 42))"
    by (simp add: NewBoltHeartbeat_def example_sofarpc_def example_wire_def valid_fields_def
        spans_fit_def too_long_def)
  from codec_roundtrip [OF example_inj init_empty v, of "[]" "[]"] example_heartbeat_bytes
  show ?thesis using example_inj init_empty v by auto
qed

end
